theory Spec2Isabelle
  imports Complex_Main "HOL-Library.Sublist"
begin

section \<open>Python values and the built-in \<open>int()\<close>\<close>

text \<open>
  The overrides of a settings mapping are annotated \<open>int | None\<close>, but every getter
  sends them through \<open>int(custom_value)\<close> inside \<open>try: ... except ValueError\<close>, so
  the values that reach the code at run time are modelled as a datatype of Python
  values. A finite float is given by its exact (rational) value, which is all that
  \<open>int()\<close> looks at; strings are ASCII text.
\<close>

datatype pyfloat = Finite rat | NaN | Infinity bool

datatype pyval =
    PyNone
  | PyBool bool
  | PyInt int
  | PyFloat pyfloat
  | PyStr string
  | PyList "pyval list"

datatype exn =
    ImproperlyConfigured string
  | ValueError
  | TypeError
  | OverflowError
  | NoTokenLimitFound
  | EmbeddingOutputDimensionsNotFound
  | OtherException string

text \<open>\<open>type(v)\<close> as an f-string prints it: \<open><class 'str'>\<close> and so on.\<close>

fun py_type_name :: "pyval \<Rightarrow> string" where
  "py_type_name PyNone = ''NoneType''"
| "py_type_name (PyBool _) = ''bool''"
| "py_type_name (PyInt _) = ''int''"
| "py_type_name (PyFloat _) = ''float''"
| "py_type_name (PyStr _) = ''str''"
| "py_type_name (PyList _) = ''list''"

definition py_type_repr :: "pyval \<Rightarrow> string" where
  "py_type_repr v = ''<class '' @ [CHR 0x27] @ py_type_name v @ [CHR 0x27] @ ''>''"

text \<open>
  \<open>int(s)\<close> on a string, base 10: surrounding whitespace is stripped, one sign is
  allowed, then decimal digits, where single underscores may stand between two digits.
  More than 4300 digits are refused (the default limit of the interpreter versions
  that have \<open>typing.Self\<close>). Anything else is a \<open>ValueError\<close>.
\<close>

definition py_isspace :: "char \<Rightarrow> bool" where
  "py_isspace c = (c \<in> set [CHR 0x20, CHR 0x09, CHR 0x0A, CHR 0x0B, CHR 0x0C, CHR 0x0D])"

definition py_strip :: "string \<Rightarrow> string" where
  "py_strip s = rev (dropWhile py_isspace (rev (dropWhile py_isspace s)))"

definition digit_val :: "char \<Rightarrow> nat option" where
  "digit_val c = (let n = (of_char c :: nat) in if 48 \<le> n \<and> n \<le> 57 then Some (n - 48) else None)"

fun py_digits :: "string \<Rightarrow> nat \<Rightarrow> nat option" where
  "py_digits [] acc = Some acc"
| "py_digits [c] acc =
     (case digit_val c of None \<Rightarrow> None | Some v \<Rightarrow> Some (10 * acc + v))"
| "py_digits (c # d # ds) acc =
     (if c = CHR ''_'' then
        (case digit_val d of None \<Rightarrow> None | Some v \<Rightarrow> py_digits ds (10 * acc + v))
      else
        (case digit_val c of None \<Rightarrow> None | Some v \<Rightarrow> py_digits (d # ds) (10 * acc + v)))"

definition int_max_str_digits :: nat where
  "int_max_str_digits = 4300"

definition py_parse_int :: "string \<Rightarrow> int option" where
  "py_parse_int s =
     (let t = py_strip s;
          neg = (case t of [] \<Rightarrow> False | c # _ \<Rightarrow> c = CHR ''-'');
          body = (case t of [] \<Rightarrow> [] | c # r \<Rightarrow> if c = CHR ''-'' \<or> c = CHR ''+'' then r else t)
      in case body of
           [] \<Rightarrow> None
         | c # cs \<Rightarrow>
             (case digit_val c of
                None \<Rightarrow> None
              | Some v \<Rightarrow>
                  (case py_digits cs v of
                     None \<Rightarrow> None
                   | Some n \<Rightarrow>
                       if int_max_str_digits < length (filter (\<lambda>x. x \<noteq> CHR ''_'') body)
                       then None
                       else Some (if neg then - int n else int n))))"

text \<open>
  \<open>int(v)\<close>: an int is returned unchanged, a bool is 0 or 1, a finite float is
  truncated toward zero, NaN is a \<open>ValueError\<close>, an infinity an \<open>OverflowError\<close>;
  \<open>None\<close> and lists are a \<open>TypeError\<close>.
\<close>

fun py_int :: "pyval \<Rightarrow> exn + int" where
  "py_int PyNone = Inl TypeError"
| "py_int (PyBool b) = Inr (if b then 1 else 0)"
| "py_int (PyInt i) = Inr i"
| "py_int (PyFloat (Finite q)) = Inr (if 0 \<le> q then \<lfloor>q\<rfloor> else \<lceil>q\<rceil>)"
| "py_int (PyFloat NaN) = Inl ValueError"
| "py_int (PyFloat (Infinity _)) = Inl OverflowError"
| "py_int (PyStr s) = (case py_parse_int s of None \<Rightarrow> Inl ValueError | Some n \<Rightarrow> Inr n)"
| "py_int (PyList _) = Inl TypeError"

section \<open>Collaborators outside this module\<close>

text \<open>
  Modelled from the spec: the modules \<open>tokens\<close> and \<open>embeddings\<close>, which are not among the
  sources. \<open>tokens.get_default_token_limit(model_id=...)\<close>,
  \<open>tokens.get_default_chunk_overlap()\<close> and
  \<open>embeddings.get_default_embedding_output_dimensions(model_id=...)\<close> are the lookups the
  spec calls external. They are parameters here: each call either returns an int or raises. A model
  has a registered default when the lookup returns one, and has none when the lookup
  raises \<open>NoTokenLimitFound\<close> (\<open>EmbeddingOutputDimensionsNotFound\<close>). The chunk-overlap
  provider is called without arguments, so its outcome is one value.
\<close>

record env =
  get_default_token_limit :: "string \<Rightarrow> exn + int"
  get_default_chunk_overlap :: "exn + int"
  get_default_embedding_output_dimensions :: "string \<Rightarrow> exn + int"

text \<open>
  Modelled from the spec: \<open>TextSplitterProtocol\<close> and
  \<open>TextSplitterLengthCalculatorProtocol\<close> of the module \<open>types\<close>, which is not among the
  sources. The text splitter and the length calculator are classes given to the Config: a
  splitter class is called with \<open>chunk_size\<close>, \<open>chunk_overlap\<close> and \<open>length_function\<close>,
  a length calculator class is called without arguments and its instances have the
  method \<open>get_splitter_length\<close>.
\<close>

record splitter_kwargs =
  chunk_size :: int
  chunk_overlap :: int
  length_function :: "string \<Rightarrow> int"

record length_calculator =
  get_splitter_length :: "string \<Rightarrow> int"

section \<open>Settings mappings and configs\<close>

text \<open>
  The settings TypedDicts: \<open>MODEL_ID\<close> is required, the other keys may be absent
  (\<open>None\<close> here), present with the value \<open>None\<close> (\<open>Some PyNone\<close>) or present with a
  value. \<open>dict_get\<close> is \<open>config.get(key)\<close>.
\<close>

record BaseConfigSettingsDict =
  MODEL_ID :: string
  TOKEN_LIMIT :: "pyval option"
  CHUNK_OVERLAP_CHARACTERS :: "pyval option"

record BaseEmbeddingConfigSettingsDict = BaseConfigSettingsDict +
  EMBEDDING_OUTPUT_DIMENSIONS :: "pyval option"

definition dict_get :: "pyval option \<Rightarrow> pyval" where
  "dict_get entry = (case entry of None \<Rightarrow> PyNone | Some v \<Rightarrow> v)"

text \<open>
  The two dataclasses. \<open>embedding_output_dimensions\<close> is whatever reaches the
  constructor under that keyword: a dataclass does not check its annotations.
\<close>

record 'ts BaseConfig =
  chunk_overlap_characters :: int
  model_id :: string
  text_splitter_class :: "splitter_kwargs \<Rightarrow> 'ts"
  text_splitter_length_calculator_class :: "unit \<Rightarrow> length_calculator"
  token_limit :: int

record 'ts BaseEmbeddingConfig = "'ts BaseConfig" +
  embedding_output_dimensions :: pyval

text \<open>\<open>**kwargs\<close>: the further keyword arguments of a call, in order.\<close>

type_synonym kwargs = "(string \<times> pyval) list"

definition setdefault :: "kwargs \<Rightarrow> string \<Rightarrow> pyval \<Rightarrow> kwargs" where
  "setdefault kw k v = (case map_of kw k of None \<Rightarrow> kw @ [(k, v)] | Some _ \<Rightarrow> kw)"

text \<open>
  \<open>cls(chunk_overlap_characters=..., model_id=..., text_splitter_class=...,
  text_splitter_length_calculator_class=..., token_limit=..., **kwargs)\<close> with the
  keyword-only \<open>__init__\<close> that \<open>@dataclass(kw_only=True)\<close> generates: a keyword that
  is no field, is given twice or is missing is a \<open>TypeError\<close>.
\<close>

definition BaseConfig_init ::
  "int \<Rightarrow> string \<Rightarrow> (splitter_kwargs \<Rightarrow> 'ts) \<Rightarrow> (unit \<Rightarrow> length_calculator) \<Rightarrow> int \<Rightarrow> kwargs
    \<Rightarrow> exn + 'ts BaseConfig" where
  "BaseConfig_init co mid tsc lcc tlim kw =
     (if kw = [] then
        Inr \<lparr>chunk_overlap_characters = co, model_id = mid, text_splitter_class = tsc,
             text_splitter_length_calculator_class = lcc, token_limit = tlim\<rparr>
      else Inl TypeError)"

definition BaseEmbeddingConfig_init ::
  "int \<Rightarrow> string \<Rightarrow> (splitter_kwargs \<Rightarrow> 'ts) \<Rightarrow> (unit \<Rightarrow> length_calculator) \<Rightarrow> int \<Rightarrow> kwargs
    \<Rightarrow> exn + 'ts BaseEmbeddingConfig" where
  "BaseEmbeddingConfig_init co mid tsc lcc tlim kw =
     (case map_of kw ''embedding_output_dimensions'' of
        None \<Rightarrow> Inl TypeError
      | Some d \<Rightarrow>
          if list_all (\<lambda>kv. fst kv = ''embedding_output_dimensions'') kw then
            Inr \<lparr>chunk_overlap_characters = co, model_id = mid, text_splitter_class = tsc,
                 text_splitter_length_calculator_class = lcc, token_limit = tlim,
                 embedding_output_dimensions = d\<rparr>
          else Inl TypeError)"

section \<open>Config resolution\<close>

definition get_token_limit :: "env \<Rightarrow> string \<Rightarrow> pyval \<Rightarrow> exn + int" where
  \<open>get_token_limit env mid custom_value =
     (if custom_value \<noteq> PyNone then
        (case py_int custom_value of
           Inr n \<Rightarrow> Inr n
         | Inl e \<Rightarrow>
             if e = ValueError then
               Inl (ImproperlyConfigured
                 (''"TOKEN_LIMIT" is not an "int", it is a "'' @ py_type_repr custom_value @ ''".''))
             else Inl e)
      else
        (case get_default_token_limit env mid of
           Inr n \<Rightarrow> Inr n
         | Inl e \<Rightarrow>
             if e = NoTokenLimitFound then
               Inl (ImproperlyConfigured
                 (''"TOKEN_LIMIT" is not configured for model "'' @ mid @ ''".''))
             else Inl e))\<close>

definition get_chunk_overlap :: "env \<Rightarrow> string \<Rightarrow> pyval \<Rightarrow> exn + int" where
  \<open>get_chunk_overlap env mid custom_value =
     (if custom_value \<noteq> PyNone then
        (case py_int custom_value of
           Inr n \<Rightarrow> Inr n
         | Inl e \<Rightarrow>
             if e = ValueError then
               Inl (ImproperlyConfigured
                 (''"CHUNK_OVERLAP_CHARACTERS" is not an "int", it is a "''
                    @ py_type_repr custom_value @ ''".''))
             else Inl e)
      else get_default_chunk_overlap env)\<close>

definition get_embedding_output_dimensions :: "env \<Rightarrow> string \<Rightarrow> pyval \<Rightarrow> exn + int" where
  \<open>get_embedding_output_dimensions env mid custom_value =
     (if custom_value \<noteq> PyNone then
        (case py_int custom_value of
           Inr n \<Rightarrow> Inr n
         | Inl e \<Rightarrow>
             if e = ValueError then
               Inl (ImproperlyConfigured
                 (''"EMBEDDING_OUTPUT_DIMENSIONS" is not an "int", it is a "''
                    @ py_type_repr custom_value @ ''".''))
             else Inl e)
      else
        (case get_default_embedding_output_dimensions env mid of
           Inr n \<Rightarrow> Inr n
         | Inl e \<Rightarrow>
             if e = EmbeddingOutputDimensionsNotFound then
               Inl (ImproperlyConfigured
                 (''"EMBEDDING_OUTPUT_DIMENSIONS" is not configured for model "'' @ mid @ ''".''))
             else Inl e))\<close>

text \<open>
  \<open>BaseConfig.from_settings\<close> is a classmethod: \<open>cls\<close> is the class it was called on,
  given here by its constructor.
\<close>

definition BaseConfig_from_settings ::
  "env \<Rightarrow> (int \<Rightarrow> string \<Rightarrow> (splitter_kwargs \<Rightarrow> 'ts) \<Rightarrow> (unit \<Rightarrow> length_calculator) \<Rightarrow> int \<Rightarrow> kwargs \<Rightarrow> exn + 'c)
    \<Rightarrow> 'm BaseConfigSettingsDict_scheme
    \<Rightarrow> (splitter_kwargs \<Rightarrow> 'ts) \<Rightarrow> (unit \<Rightarrow> length_calculator) \<Rightarrow> kwargs \<Rightarrow> exn + 'c" where
  "BaseConfig_from_settings env cls settings tsc lcc kw =
     (case get_token_limit env (MODEL_ID settings) (dict_get (TOKEN_LIMIT settings)) of
        Inl e \<Rightarrow> Inl e
      | Inr tlim \<Rightarrow>
          (case get_chunk_overlap env (MODEL_ID settings)
                  (dict_get (CHUNK_OVERLAP_CHARACTERS settings)) of
             Inl e \<Rightarrow> Inl e
           | Inr co \<Rightarrow> cls co (MODEL_ID settings) tsc lcc tlim kw))"

definition BaseEmbeddingConfig_from_settings ::
  "env \<Rightarrow> (int \<Rightarrow> string \<Rightarrow> (splitter_kwargs \<Rightarrow> 'ts) \<Rightarrow> (unit \<Rightarrow> length_calculator) \<Rightarrow> int \<Rightarrow> kwargs \<Rightarrow> exn + 'c)
    \<Rightarrow> 'm BaseEmbeddingConfigSettingsDict_scheme
    \<Rightarrow> (splitter_kwargs \<Rightarrow> 'ts) \<Rightarrow> (unit \<Rightarrow> length_calculator) \<Rightarrow> kwargs \<Rightarrow> exn + 'c" where
  "BaseEmbeddingConfig_from_settings env cls settings tsc lcc kw =
     (case get_embedding_output_dimensions env (MODEL_ID settings)
             (dict_get (EMBEDDING_OUTPUT_DIMENSIONS settings)) of
        Inl e \<Rightarrow> Inl e
      | Inr d \<Rightarrow>
          BaseConfig_from_settings env cls settings tsc lcc
            (setdefault kw ''embedding_output_dimensions'' (PyInt d)))"

section \<open>Backends\<close>

record 'c BaseBackend =
  config :: 'c

definition BaseBackend_init :: "'c \<Rightarrow> 'c BaseBackend" where
  "BaseBackend_init c = \<lparr>config = c\<rparr>"

definition get_splitter_length_calculator ::
  "('ts, 'm) BaseConfig_scheme BaseBackend \<Rightarrow> length_calculator" where
  "get_splitter_length_calculator self = text_splitter_length_calculator_class (config self) ()"

definition get_text_splitter :: "('ts, 'm) BaseConfig_scheme BaseBackend \<Rightarrow> 'ts" where
  "get_text_splitter self =
     text_splitter_class (config self)
       \<lparr>chunk_size = token_limit (config self),
        chunk_overlap = chunk_overlap_characters (config self),
        length_function = get_splitter_length (get_splitter_length_calculator self)\<rparr>"

definition BaseEmbeddingBackend_embedding_output_dimensions ::
  "('ts, 'm) BaseEmbeddingConfig_scheme BaseBackend \<Rightarrow> pyval" where
  "BaseEmbeddingBackend_embedding_output_dimensions self = embedding_output_dimensions (config self)"

section \<open>Example collaborators\<close>

text \<open>
  A token-limit table that knows \<open>gpt-4\<close> and \<open>text-embed-1\<close>, a chunk-overlap provider that returns 100, an
  embedding-dimension table that knows \<open>text-embed-1\<close>, a splitter class that records its
  keyword arguments and a length calculator that counts characters.
\<close>

definition example_env :: env where
  "example_env =
     \<lparr>get_default_token_limit =
        (\<lambda>m. if m = ''gpt-4'' then Inr 8192
             else if m = ''text-embed-1'' then Inr 512
             else Inl NoTokenLimitFound),
      get_default_chunk_overlap = Inr 100,
      get_default_embedding_output_dimensions =
        (\<lambda>m. if m = ''text-embed-1'' then Inr 768 else Inl EmbeddingOutputDimensionsNotFound)\<rparr>"

definition example_splitter_class :: "splitter_kwargs \<Rightarrow> splitter_kwargs" where
  "example_splitter_class kw = kw"

definition example_length_calculator_class :: "unit \<Rightarrow> length_calculator" where
  "example_length_calculator_class u = \<lparr>get_splitter_length = (\<lambda>s. int (length s))\<rparr>"

section \<open>The getters\<close>

lemma dict_get_simps [simp]: "dict_get None = PyNone" "dict_get (Some v) = v"
  by (simp_all add: dict_get_def)

lemma py_int_None_not_Inr: "py_int v = Inr n \<Longrightarrow> v \<noteq> PyNone"
  by auto

lemma py_int_ValueError_not_None: "py_int v = Inl ValueError \<Longrightarrow> v \<noteq> PyNone"
  by auto

lemma get_token_limit_override:
  "py_int v = Inr n \<Longrightarrow> get_token_limit env m v = Inr n"
  by (auto simp: get_token_limit_def)

lemma get_chunk_overlap_override:
  "py_int v = Inr n \<Longrightarrow> get_chunk_overlap env m v = Inr n"
  by (auto simp: get_chunk_overlap_def)

lemma get_embedding_output_dimensions_override:
  "py_int v = Inr n \<Longrightarrow> get_embedding_output_dimensions env m v = Inr n"
  by (auto simp: get_embedding_output_dimensions_def)

lemma get_token_limit_ValueError:
  \<open>py_int v = Inl ValueError \<Longrightarrow>
   get_token_limit env m v =
     Inl (ImproperlyConfigured (''"TOKEN_LIMIT" is not an "int", it is a "'' @ py_type_repr v @ ''".''))\<close>
  by (auto simp: get_token_limit_def)

lemma get_chunk_overlap_ValueError:
  \<open>py_int v = Inl ValueError \<Longrightarrow>
   get_chunk_overlap env m v =
     Inl (ImproperlyConfigured
       (''"CHUNK_OVERLAP_CHARACTERS" is not an "int", it is a "'' @ py_type_repr v @ ''".''))\<close>
  by (auto simp: get_chunk_overlap_def)

lemma get_embedding_output_dimensions_ValueError:
  \<open>py_int v = Inl ValueError \<Longrightarrow>
   get_embedding_output_dimensions env m v =
     Inl (ImproperlyConfigured
       (''"EMBEDDING_OUTPUT_DIMENSIONS" is not an "int", it is a "'' @ py_type_repr v @ ''".''))\<close>
  by (auto simp: get_embedding_output_dimensions_def)

lemma get_token_limit_other_error:
  "py_int v = Inl e \<Longrightarrow> e \<noteq> ValueError \<Longrightarrow> v \<noteq> PyNone \<Longrightarrow> get_token_limit env m v = Inl e"
  by (simp add: get_token_limit_def)

lemma get_chunk_overlap_other_error:
  "py_int v = Inl e \<Longrightarrow> e \<noteq> ValueError \<Longrightarrow> v \<noteq> PyNone \<Longrightarrow> get_chunk_overlap env m v = Inl e"
  by (simp add: get_chunk_overlap_def)

lemma get_embedding_output_dimensions_other_error:
  "py_int v = Inl e \<Longrightarrow> e \<noteq> ValueError \<Longrightarrow> v \<noteq> PyNone \<Longrightarrow>
   get_embedding_output_dimensions env m v = Inl e"
  by (simp add: get_embedding_output_dimensions_def)

lemma get_token_limit_default:
  "get_default_token_limit env m = Inr d \<Longrightarrow> get_token_limit env m PyNone = Inr d"
  by (simp add: get_token_limit_def)

lemma get_token_limit_not_found:
  \<open>get_default_token_limit env m = Inl NoTokenLimitFound \<Longrightarrow>
   get_token_limit env m PyNone =
     Inl (ImproperlyConfigured (''"TOKEN_LIMIT" is not configured for model "'' @ m @ ''".''))\<close>
  by (simp add: get_token_limit_def)

lemma get_chunk_overlap_default:
  "get_chunk_overlap env m PyNone = get_default_chunk_overlap env"
  by (simp add: get_chunk_overlap_def)

lemma get_embedding_output_dimensions_default:
  "get_default_embedding_output_dimensions env m = Inr d \<Longrightarrow>
   get_embedding_output_dimensions env m PyNone = Inr d"
  by (simp add: get_embedding_output_dimensions_def)

lemma get_embedding_output_dimensions_not_found:
  \<open>get_default_embedding_output_dimensions env m = Inl EmbeddingOutputDimensionsNotFound \<Longrightarrow>
   get_embedding_output_dimensions env m PyNone =
     Inl (ImproperlyConfigured
       (''"EMBEDDING_OUTPUT_DIMENSIONS" is not configured for model "'' @ m @ ''".''))\<close>
  by (simp add: get_embedding_output_dimensions_def)

text \<open>What the two kinds of message mention.\<close>

lemma token_limit_not_configured_names:
  \<open>sublist ''TOKEN_LIMIT'' (''"TOKEN_LIMIT" is not configured for model "'' @ m @ ''".'') \<and>
   sublist m (''"TOKEN_LIMIT" is not configured for model "'' @ m @ ''".'')\<close>
proof
  have \<open>''"TOKEN_LIMIT" is not configured for model "'' @ m @ ''".''
      = [CHR 0x22] @ ''TOKEN_LIMIT'' @ (''" is not configured for model "'' @ m @ ''".'')\<close>
    by simp
  then show \<open>sublist ''TOKEN_LIMIT'' (''"TOKEN_LIMIT" is not configured for model "'' @ m @ ''".'')\<close>
    unfolding sublist_def by blast
  show \<open>sublist m (''"TOKEN_LIMIT" is not configured for model "'' @ m @ ''".'')\<close>
    by (rule sublist_appendI)
qed

lemma embedding_output_dimensions_not_configured_names:
  \<open>sublist ''EMBEDDING_OUTPUT_DIMENSIONS''
     (''"EMBEDDING_OUTPUT_DIMENSIONS" is not configured for model "'' @ m @ ''".'') \<and>
   sublist m (''"EMBEDDING_OUTPUT_DIMENSIONS" is not configured for model "'' @ m @ ''".'')\<close>
proof
  have \<open>''"EMBEDDING_OUTPUT_DIMENSIONS" is not configured for model "'' @ m @ ''".''
      = [CHR 0x22] @ ''EMBEDDING_OUTPUT_DIMENSIONS''
          @ (''" is not configured for model "'' @ m @ ''".'')\<close>
    by simp
  then show \<open>sublist ''EMBEDDING_OUTPUT_DIMENSIONS''
      (''"EMBEDDING_OUTPUT_DIMENSIONS" is not configured for model "'' @ m @ ''".'')\<close>
    unfolding sublist_def by blast
  show \<open>sublist m (''"EMBEDDING_OUTPUT_DIMENSIONS" is not configured for model "'' @ m @ ''".'')\<close>
    by (rule sublist_appendI)
qed

lemma not_an_int_names:
  \<open>sublist ''TOKEN_LIMIT'' (''"TOKEN_LIMIT" is not an "int", it is a "'' @ t @ ''".'')\<close>
  \<open>sublist ''CHUNK_OVERLAP_CHARACTERS''
     (''"CHUNK_OVERLAP_CHARACTERS" is not an "int", it is a "'' @ t @ ''".'')\<close>
  \<open>sublist ''EMBEDDING_OUTPUT_DIMENSIONS''
     (''"EMBEDDING_OUTPUT_DIMENSIONS" is not an "int", it is a "'' @ t @ ''".'')\<close>
proof -
  have \<open>''"TOKEN_LIMIT" is not an "int", it is a "'' @ t @ ''".''
      = [CHR 0x22] @ ''TOKEN_LIMIT'' @ (''" is not an "int", it is a "'' @ t @ ''".'')\<close>
    by simp
  then show \<open>sublist ''TOKEN_LIMIT'' (''"TOKEN_LIMIT" is not an "int", it is a "'' @ t @ ''".'')\<close>
    unfolding sublist_def by blast
  have \<open>''"CHUNK_OVERLAP_CHARACTERS" is not an "int", it is a "'' @ t @ ''".''
      = [CHR 0x22] @ ''CHUNK_OVERLAP_CHARACTERS'' @ (''" is not an "int", it is a "'' @ t @ ''".'')\<close>
    by simp
  then show \<open>sublist ''CHUNK_OVERLAP_CHARACTERS''
      (''"CHUNK_OVERLAP_CHARACTERS" is not an "int", it is a "'' @ t @ ''".'')\<close>
    unfolding sublist_def by blast
  have \<open>''"EMBEDDING_OUTPUT_DIMENSIONS" is not an "int", it is a "'' @ t @ ''".''
      = [CHR 0x22] @ ''EMBEDDING_OUTPUT_DIMENSIONS''
          @ (''" is not an "int", it is a "'' @ t @ ''".'')\<close>
    by simp
  then show \<open>sublist ''EMBEDDING_OUTPUT_DIMENSIONS''
      (''"EMBEDDING_OUTPUT_DIMENSIONS" is not an "int", it is a "'' @ t @ ''".'')\<close>
    unfolding sublist_def by blast
qed

text \<open>The order of the steps of \<open>from_settings\<close>: the first failure is the result.\<close>

lemma BaseConfig_from_settings_token_error:
  "get_token_limit env (MODEL_ID s) (dict_get (TOKEN_LIMIT s)) = Inl e \<Longrightarrow>
   BaseConfig_from_settings env cls s tsc lcc kw = Inl e"
  by (simp add: BaseConfig_from_settings_def)

lemma BaseConfig_from_settings_chunk_error:
  "get_token_limit env (MODEL_ID s) (dict_get (TOKEN_LIMIT s)) = Inr t \<Longrightarrow>
   get_chunk_overlap env (MODEL_ID s) (dict_get (CHUNK_OVERLAP_CHARACTERS s)) = Inl e \<Longrightarrow>
   BaseConfig_from_settings env cls s tsc lcc kw = Inl e"
  by (simp add: BaseConfig_from_settings_def)

lemma BaseConfig_from_settings_resolved:
  "get_token_limit env (MODEL_ID s) (dict_get (TOKEN_LIMIT s)) = Inr t \<Longrightarrow>
   get_chunk_overlap env (MODEL_ID s) (dict_get (CHUNK_OVERLAP_CHARACTERS s)) = Inr c \<Longrightarrow>
   BaseConfig_from_settings env cls s tsc lcc kw = cls c (MODEL_ID s) tsc lcc t kw"
  by (simp add: BaseConfig_from_settings_def)

lemma BaseEmbeddingConfig_from_settings_embedding_error:
  "get_embedding_output_dimensions env (MODEL_ID s) (dict_get (EMBEDDING_OUTPUT_DIMENSIONS s))
     = Inl e \<Longrightarrow>
   BaseEmbeddingConfig_from_settings env cls s tsc lcc kw = Inl e"
  by (simp add: BaseEmbeddingConfig_from_settings_def)

lemma BaseEmbeddingConfig_from_settings_delegates:
  "get_embedding_output_dimensions env (MODEL_ID s) (dict_get (EMBEDDING_OUTPUT_DIMENSIONS s))
     = Inr d \<Longrightarrow>
   BaseEmbeddingConfig_from_settings env cls s tsc lcc kw =
     BaseConfig_from_settings env cls s tsc lcc
       (setdefault kw ''embedding_output_dimensions'' (PyInt d))"
  by (simp add: BaseEmbeddingConfig_from_settings_def)

lemma BaseConfig_from_settings_Inr:
  "BaseConfig_from_settings env BaseConfig_init s tsc lcc kw = Inr cfg \<longleftrightarrow>
     (\<exists>t c. get_token_limit env (MODEL_ID s) (dict_get (TOKEN_LIMIT s)) = Inr t \<and>
            get_chunk_overlap env (MODEL_ID s) (dict_get (CHUNK_OVERLAP_CHARACTERS s)) = Inr c \<and>
            kw = [] \<and>
            cfg = \<lparr>chunk_overlap_characters = c, model_id = MODEL_ID s, text_splitter_class = tsc,
                   text_splitter_length_calculator_class = lcc, token_limit = t\<rparr>)"
  by (auto simp: BaseConfig_from_settings_def BaseConfig_init_def split: sum.splits)

lemma map_of_setdefault:
  "map_of (setdefault kw k v) k = Some (case map_of kw k of None \<Rightarrow> v | Some w \<Rightarrow> w)"
  by (auto simp: setdefault_def map_add_def split: option.splits)

lemma list_all_setdefault:
  "list_all (\<lambda>kv. fst kv = k) (setdefault kw k v) = list_all (\<lambda>kv. fst kv = k) kw"
  by (auto simp: setdefault_def split: option.splits)

lemma BaseEmbeddingConfig_from_settings_Inr:
  "BaseEmbeddingConfig_from_settings env BaseEmbeddingConfig_init s tsc lcc kw = Inr cfg \<longleftrightarrow>
     (\<exists>d t c. get_embedding_output_dimensions env (MODEL_ID s)
                 (dict_get (EMBEDDING_OUTPUT_DIMENSIONS s)) = Inr d \<and>
            get_token_limit env (MODEL_ID s) (dict_get (TOKEN_LIMIT s)) = Inr t \<and>
            get_chunk_overlap env (MODEL_ID s) (dict_get (CHUNK_OVERLAP_CHARACTERS s)) = Inr c \<and>
            list_all (\<lambda>kv. fst kv = ''embedding_output_dimensions'') kw \<and>
            cfg = \<lparr>chunk_overlap_characters = c, model_id = MODEL_ID s, text_splitter_class = tsc,
                   text_splitter_length_calculator_class = lcc, token_limit = t,
                   embedding_output_dimensions =
                     (case map_of kw ''embedding_output_dimensions'' of
                        None \<Rightarrow> PyInt d | Some w \<Rightarrow> w)\<rparr>)"
  by (auto simp: BaseEmbeddingConfig_from_settings_def BaseConfig_from_settings_def
      BaseEmbeddingConfig_init_def map_of_setdefault list_all_setdefault split: sum.splits option.splits)

section \<open>Properties of the resolution\<close>

subsection \<open>Overrides\<close>

text \<open>
  C1. A present, integer-coercible override is the resolved value of its field, whatever
  the lookups hold for the model: each getter returns the coerced override for every
  \<open>env\<close>, and every Config that \<open>from_settings\<close> returns carries it in \<open>token_limit\<close>,
  \<open>chunk_overlap_characters\<close> and, in the embedding variant when the caller passes no
  \<open>embedding_output_dimensions\<close> keyword of its own, \<open>embedding_output_dimensions\<close>.
\<close>

theorem C1_override_wins:
  "(py_int v = Inr n \<longrightarrow>
      get_token_limit env m v = Inr n \<and>
      get_chunk_overlap env m v = Inr n \<and>
      get_embedding_output_dimensions env m v = Inr n) \<and>
   (TOKEN_LIMIT s = Some v1 \<and> py_int v1 = Inr n1 \<and>
    BaseConfig_from_settings env BaseConfig_init s tsc lcc kw = Inr cfg \<longrightarrow>
      token_limit cfg = n1) \<and>
   (CHUNK_OVERLAP_CHARACTERS s = Some v2 \<and> py_int v2 = Inr n2 \<and>
    BaseConfig_from_settings env BaseConfig_init s tsc lcc kw = Inr cfg \<longrightarrow>
      chunk_overlap_characters cfg = n2) \<and>
   (TOKEN_LIMIT es = Some v1 \<and> py_int v1 = Inr n1 \<and>
    BaseEmbeddingConfig_from_settings env BaseEmbeddingConfig_init es tsc lcc kw = Inr ecfg \<longrightarrow>
      token_limit ecfg = n1) \<and>
   (CHUNK_OVERLAP_CHARACTERS es = Some v2 \<and> py_int v2 = Inr n2 \<and>
    BaseEmbeddingConfig_from_settings env BaseEmbeddingConfig_init es tsc lcc kw = Inr ecfg \<longrightarrow>
      chunk_overlap_characters ecfg = n2) \<and>
   (EMBEDDING_OUTPUT_DIMENSIONS es = Some v3 \<and> py_int v3 = Inr n3 \<and>
    map_of kw ''embedding_output_dimensions'' = None \<and>
    BaseEmbeddingConfig_from_settings env BaseEmbeddingConfig_init es tsc lcc kw = Inr ecfg \<longrightarrow>
      embedding_output_dimensions ecfg = PyInt n3)"
  by (auto simp: BaseConfig_from_settings_Inr BaseEmbeddingConfig_from_settings_Inr
      get_token_limit_override get_chunk_overlap_override
      get_embedding_output_dimensions_override)

theorem C1_override_wins_witness:
  "py_int (PyInt 4096) = Inr 4096 \<and>
   get_token_limit example_env ''gpt-4'' (PyInt 4096) = Inr 4096 \<and>
   get_chunk_overlap example_env ''gpt-4'' (PyInt 4096) = Inr 4096 \<and>
   get_embedding_output_dimensions example_env ''gpt-4'' (PyInt 4096) = Inr 4096 \<and>
   get_default_token_limit example_env ''gpt-4'' = Inr 8192 \<and>
   BaseConfig_from_settings example_env BaseConfig_init
     \<lparr>MODEL_ID = ''gpt-4'', TOKEN_LIMIT = Some (PyInt 4096),
      CHUNK_OVERLAP_CHARACTERS = Some (PyInt 50)\<rparr>
     example_splitter_class example_length_calculator_class []
   = Inr \<lparr>chunk_overlap_characters = 50, model_id = ''gpt-4'',
          text_splitter_class = example_splitter_class,
          text_splitter_length_calculator_class = example_length_calculator_class,
          token_limit = 4096\<rparr> \<and>
   get_default_embedding_output_dimensions example_env ''text-embed-1'' = Inr 768 \<and>
   BaseEmbeddingConfig_from_settings example_env BaseEmbeddingConfig_init
     \<lparr>MODEL_ID = ''text-embed-1'', TOKEN_LIMIT = Some (PyInt 4096),
      CHUNK_OVERLAP_CHARACTERS = Some (PyInt 50),
      EMBEDDING_OUTPUT_DIMENSIONS = Some (PyInt 1536)\<rparr>
     example_splitter_class example_length_calculator_class []
   = Inr \<lparr>chunk_overlap_characters = 50, model_id = ''text-embed-1'',
          text_splitter_class = example_splitter_class,
          text_splitter_length_calculator_class = example_length_calculator_class,
          token_limit = 4096, embedding_output_dimensions = PyInt 1536\<rparr>"
  using C1_override_wins [of "PyInt 4096" 4096 example_env "''gpt-4''"
      "\<lparr>MODEL_ID = ''gpt-4'', TOKEN_LIMIT = Some (PyInt 4096),
        CHUNK_OVERLAP_CHARACTERS = Some (PyInt 50)\<rparr>"
      "PyInt 4096" 4096 example_splitter_class example_length_calculator_class "[]"
      "\<lparr>chunk_overlap_characters = 50, model_id = ''gpt-4'',
          text_splitter_class = example_splitter_class,
          text_splitter_length_calculator_class = example_length_calculator_class,
          token_limit = 4096\<rparr>"
      "PyInt 50" 50
      "\<lparr>MODEL_ID = ''text-embed-1'', TOKEN_LIMIT = Some (PyInt 4096),
        CHUNK_OVERLAP_CHARACTERS = Some (PyInt 50),
        EMBEDDING_OUTPUT_DIMENSIONS = Some (PyInt 1536)\<rparr>"
      "\<lparr>chunk_overlap_characters = 50, model_id = ''text-embed-1'',
          text_splitter_class = example_splitter_class,
          text_splitter_length_calculator_class = example_length_calculator_class,
          token_limit = 4096, embedding_output_dimensions = PyInt 1536\<rparr>"
      "PyInt 1536" 1536]
  by (simp add: example_env_def BaseConfig_from_settings_Inr BaseEmbeddingConfig_from_settings_Inr
      get_token_limit_override get_chunk_overlap_override
      get_embedding_output_dimensions_override)

subsection \<open>Registered defaults\<close>

text \<open>
  C2. A field whose override is omitted takes the registered default: with the key absent,
  each getter returns what the lookup returns for the model id (the chunk-overlap provider
  for \<open>chunk_overlap_characters\<close>), and every Config that \<open>from_settings\<close> returns carries
  that default in its field. In the embedding variant the caller passes no
  \<open>embedding_output_dimensions\<close> keyword of its own.
\<close>

theorem C2_default_when_omitted:
  "(get_default_token_limit env m = Inr d \<longrightarrow> get_token_limit env m (dict_get None) = Inr d) \<and>
   (get_default_chunk_overlap env = Inr d \<longrightarrow> get_chunk_overlap env m (dict_get None) = Inr d) \<and>
   (get_default_embedding_output_dimensions env m = Inr d \<longrightarrow>
      get_embedding_output_dimensions env m (dict_get None) = Inr d) \<and>
   (TOKEN_LIMIT s = None \<and> get_default_token_limit env (MODEL_ID s) = Inr d1 \<and>
    BaseConfig_from_settings env BaseConfig_init s tsc lcc kw = Inr cfg \<longrightarrow>
      token_limit cfg = d1) \<and>
   (CHUNK_OVERLAP_CHARACTERS s = None \<and> get_default_chunk_overlap env = Inr d2 \<and>
    BaseConfig_from_settings env BaseConfig_init s tsc lcc kw = Inr cfg \<longrightarrow>
      chunk_overlap_characters cfg = d2) \<and>
   (TOKEN_LIMIT es = None \<and> get_default_token_limit env (MODEL_ID es) = Inr d1 \<and>
    BaseEmbeddingConfig_from_settings env BaseEmbeddingConfig_init es tsc lcc kw = Inr ecfg \<longrightarrow>
      token_limit ecfg = d1) \<and>
   (CHUNK_OVERLAP_CHARACTERS es = None \<and> get_default_chunk_overlap env = Inr d2 \<and>
    BaseEmbeddingConfig_from_settings env BaseEmbeddingConfig_init es tsc lcc kw = Inr ecfg \<longrightarrow>
      chunk_overlap_characters ecfg = d2) \<and>
   (EMBEDDING_OUTPUT_DIMENSIONS es = None \<and>
    get_default_embedding_output_dimensions env (MODEL_ID es) = Inr d3 \<and>
    map_of kw ''embedding_output_dimensions'' = None \<and>
    BaseEmbeddingConfig_from_settings env BaseEmbeddingConfig_init es tsc lcc kw = Inr ecfg \<longrightarrow>
      embedding_output_dimensions ecfg = PyInt d3)"
  by (auto simp: BaseConfig_from_settings_Inr BaseEmbeddingConfig_from_settings_Inr
      get_token_limit_default get_chunk_overlap_default
      get_embedding_output_dimensions_default)

theorem C2_default_when_omitted_witness:
  "get_default_token_limit example_env ''text-embed-1'' = Inr 512 \<and>
   get_default_chunk_overlap example_env = Inr 100 \<and>
   get_default_embedding_output_dimensions example_env ''text-embed-1'' = Inr 768 \<and>
   get_token_limit example_env ''text-embed-1'' (dict_get None) = Inr 512 \<and>
   get_chunk_overlap example_env ''text-embed-1'' (dict_get None) = Inr 100 \<and>
   get_embedding_output_dimensions example_env ''text-embed-1'' (dict_get None) = Inr 768 \<and>
   BaseConfig_from_settings example_env BaseConfig_init
     \<lparr>MODEL_ID = ''text-embed-1'', TOKEN_LIMIT = None, CHUNK_OVERLAP_CHARACTERS = None\<rparr>
     example_splitter_class example_length_calculator_class []
   = Inr \<lparr>chunk_overlap_characters = 100, model_id = ''text-embed-1'',
          text_splitter_class = example_splitter_class,
          text_splitter_length_calculator_class = example_length_calculator_class,
          token_limit = 512\<rparr> \<and>
   BaseEmbeddingConfig_from_settings example_env BaseEmbeddingConfig_init
     \<lparr>MODEL_ID = ''text-embed-1'', TOKEN_LIMIT = None, CHUNK_OVERLAP_CHARACTERS = None,
      EMBEDDING_OUTPUT_DIMENSIONS = None\<rparr>
     example_splitter_class example_length_calculator_class []
   = Inr \<lparr>chunk_overlap_characters = 100, model_id = ''text-embed-1'',
          text_splitter_class = example_splitter_class,
          text_splitter_length_calculator_class = example_length_calculator_class,
          token_limit = 512, embedding_output_dimensions = PyInt 768\<rparr>"
  using C2_default_when_omitted [of example_env "''text-embed-1''" 512]
    C2_default_when_omitted [of example_env "''text-embed-1''" 100]
    C2_default_when_omitted [of example_env "''text-embed-1''" 768
      "\<lparr>MODEL_ID = ''text-embed-1'', TOKEN_LIMIT = None, CHUNK_OVERLAP_CHARACTERS = None\<rparr>"
      512 example_splitter_class example_length_calculator_class "[]"
      "\<lparr>chunk_overlap_characters = 100, model_id = ''text-embed-1'',
          text_splitter_class = example_splitter_class,
          text_splitter_length_calculator_class = example_length_calculator_class,
          token_limit = 512\<rparr>"
      100
      "\<lparr>MODEL_ID = ''text-embed-1'', TOKEN_LIMIT = None, CHUNK_OVERLAP_CHARACTERS = None,
        EMBEDDING_OUTPUT_DIMENSIONS = None\<rparr>"
      "\<lparr>chunk_overlap_characters = 100, model_id = ''text-embed-1'',
          text_splitter_class = example_splitter_class,
          text_splitter_length_calculator_class = example_length_calculator_class,
          token_limit = 512, embedding_output_dimensions = PyInt 768\<rparr>"
      768]
  by (simp add: example_env_def BaseConfig_from_settings_Inr BaseEmbeddingConfig_from_settings_Inr
      get_token_limit_default get_chunk_overlap_default
      get_embedding_output_dimensions_default)

subsection \<open>Missing defaults\<close>

text \<open>
  C3. When \<open>TOKEN_LIMIT\<close> is omitted and the token-limit lookup has no default for the model
  id, \<open>from_settings\<close> fails with \<open>ImproperlyConfigured\<close>, and the message contains both
  \<open>TOKEN_LIMIT\<close> and the model id; the same holds for \<open>EMBEDDING_OUTPUT_DIMENSIONS\<close> in the
  embedding variant. This is so for every class and every further keyword arguments. In the
  embedding variant the token limit is looked at once the embedding dimension has resolved.
  The mapping \<open>{"MODEL_ID": "unknown-model"}\<close> is the example.
\<close>

theorem C3_missing_default_is_configuration_error:
  "(TOKEN_LIMIT s = None \<and> get_default_token_limit env (MODEL_ID s) = Inl NoTokenLimitFound \<longrightarrow>
      (\<exists>msg. BaseConfig_from_settings env cls s tsc lcc kw = Inl (ImproperlyConfigured msg) \<and>
             sublist ''TOKEN_LIMIT'' msg \<and> sublist (MODEL_ID s) msg)) \<and>
   (EMBEDDING_OUTPUT_DIMENSIONS es = None \<and>
    get_default_embedding_output_dimensions env (MODEL_ID es) = Inl EmbeddingOutputDimensionsNotFound \<longrightarrow>
      (\<exists>msg. BaseEmbeddingConfig_from_settings env cls es tsc lcc kw = Inl (ImproperlyConfigured msg) \<and>
             sublist ''EMBEDDING_OUTPUT_DIMENSIONS'' msg \<and> sublist (MODEL_ID es) msg)) \<and>
   (TOKEN_LIMIT es = None \<and> get_default_token_limit env (MODEL_ID es) = Inl NoTokenLimitFound \<and>
    get_embedding_output_dimensions env (MODEL_ID es) (dict_get (EMBEDDING_OUTPUT_DIMENSIONS es))
      = Inr k \<longrightarrow>
      (\<exists>msg. BaseEmbeddingConfig_from_settings env cls es tsc lcc kw = Inl (ImproperlyConfigured msg) \<and>
             sublist ''TOKEN_LIMIT'' msg \<and> sublist (MODEL_ID es) msg))"
proof (intro conjI impI)
  assume h: "TOKEN_LIMIT s = None \<and> get_default_token_limit env (MODEL_ID s) = Inl NoTokenLimitFound"
  have "BaseConfig_from_settings env cls s tsc lcc kw =
      Inl (ImproperlyConfigured (''\"TOKEN_LIMIT\" is not configured for model \"'' @ MODEL_ID s @ ''\".''))"
    using h by (intro BaseConfig_from_settings_token_error) (simp add: get_token_limit_not_found)
  then show "\<exists>msg. BaseConfig_from_settings env cls s tsc lcc kw = Inl (ImproperlyConfigured msg) \<and>
             sublist ''TOKEN_LIMIT'' msg \<and> sublist (MODEL_ID s) msg"
    using token_limit_not_configured_names [of "MODEL_ID s"] by blast
next
  assume h: "EMBEDDING_OUTPUT_DIMENSIONS es = None \<and>
    get_default_embedding_output_dimensions env (MODEL_ID es) = Inl EmbeddingOutputDimensionsNotFound"
  have "BaseEmbeddingConfig_from_settings env cls es tsc lcc kw =
      Inl (ImproperlyConfigured
        (''\"EMBEDDING_OUTPUT_DIMENSIONS\" is not configured for model \"'' @ MODEL_ID es @ ''\".''))"
    using h by (intro BaseEmbeddingConfig_from_settings_embedding_error)
      (simp add: get_embedding_output_dimensions_not_found)
  then show "\<exists>msg. BaseEmbeddingConfig_from_settings env cls es tsc lcc kw
               = Inl (ImproperlyConfigured msg) \<and>
             sublist ''EMBEDDING_OUTPUT_DIMENSIONS'' msg \<and> sublist (MODEL_ID es) msg"
    using embedding_output_dimensions_not_configured_names [of "MODEL_ID es"] by blast
next
  assume h: "TOKEN_LIMIT es = None \<and> get_default_token_limit env (MODEL_ID es) = Inl NoTokenLimitFound \<and>
    get_embedding_output_dimensions env (MODEL_ID es) (dict_get (EMBEDDING_OUTPUT_DIMENSIONS es))
      = Inr k"
  then have "BaseEmbeddingConfig_from_settings env cls es tsc lcc kw =
      BaseConfig_from_settings env cls es tsc lcc
        (setdefault kw ''embedding_output_dimensions'' (PyInt k))"
    by (intro BaseEmbeddingConfig_from_settings_delegates) simp
  moreover have "BaseConfig_from_settings env cls es tsc lcc
        (setdefault kw ''embedding_output_dimensions'' (PyInt k)) =
      Inl (ImproperlyConfigured (''\"TOKEN_LIMIT\" is not configured for model \"'' @ MODEL_ID es @ ''\".''))"
    using h by (intro BaseConfig_from_settings_token_error) (simp add: get_token_limit_not_found)
  ultimately show "\<exists>msg. BaseEmbeddingConfig_from_settings env cls es tsc lcc kw
               = Inl (ImproperlyConfigured msg) \<and>
             sublist ''TOKEN_LIMIT'' msg \<and> sublist (MODEL_ID es) msg"
    using token_limit_not_configured_names [of "MODEL_ID es"] by simp
qed

theorem C3_missing_default_is_configuration_error_witness:
  \<open>BaseConfig_from_settings example_env BaseConfig_init
     \<lparr>MODEL_ID = ''unknown-model'', TOKEN_LIMIT = None, CHUNK_OVERLAP_CHARACTERS = None\<rparr>
     example_splitter_class example_length_calculator_class []
   = Inl (ImproperlyConfigured ''"TOKEN_LIMIT" is not configured for model "unknown-model".'') \<and>
   sublist ''TOKEN_LIMIT'' ''"TOKEN_LIMIT" is not configured for model "unknown-model".'' \<and>
   sublist ''unknown-model'' ''"TOKEN_LIMIT" is not configured for model "unknown-model".'' \<and>
   BaseEmbeddingConfig_from_settings example_env BaseEmbeddingConfig_init
     \<lparr>MODEL_ID = ''unknown-model'', TOKEN_LIMIT = None, CHUNK_OVERLAP_CHARACTERS = None,
      EMBEDDING_OUTPUT_DIMENSIONS = None\<rparr>
     example_splitter_class example_length_calculator_class []
   = Inl (ImproperlyConfigured
       ''"EMBEDDING_OUTPUT_DIMENSIONS" is not configured for model "unknown-model".'') \<and>
   BaseEmbeddingConfig_from_settings example_env BaseEmbeddingConfig_init
     \<lparr>MODEL_ID = ''unknown-model'', TOKEN_LIMIT = None, CHUNK_OVERLAP_CHARACTERS = None,
      EMBEDDING_OUTPUT_DIMENSIONS = Some (PyInt 1536)\<rparr>
     example_splitter_class example_length_calculator_class []
   = Inl (ImproperlyConfigured ''"TOKEN_LIMIT" is not configured for model "unknown-model".'')\<close>
  using C3_missing_default_is_configuration_error
      [of "\<lparr>MODEL_ID = ''unknown-model'', TOKEN_LIMIT = None, CHUNK_OVERLAP_CHARACTERS = None\<rparr>"
        example_env BaseConfig_init example_splitter_class example_length_calculator_class "[]"
        "\<lparr>MODEL_ID = ''unknown-model'', TOKEN_LIMIT = None, CHUNK_OVERLAP_CHARACTERS = None,
          EMBEDDING_OUTPUT_DIMENSIONS = None\<rparr>"]
    C3_missing_default_is_configuration_error
      [of "\<lparr>MODEL_ID = ''unknown-model'', TOKEN_LIMIT = None, CHUNK_OVERLAP_CHARACTERS = None\<rparr>"
        example_env BaseEmbeddingConfig_init example_splitter_class example_length_calculator_class
        "[]"
        "\<lparr>MODEL_ID = ''unknown-model'', TOKEN_LIMIT = None, CHUNK_OVERLAP_CHARACTERS = None,
          EMBEDDING_OUTPUT_DIMENSIONS = Some (PyInt 1536)\<rparr>" 1536]
  by (simp add: example_env_def BaseConfig_from_settings_def BaseEmbeddingConfig_from_settings_def
      get_token_limit_def get_embedding_output_dimensions_def sublist_code)

subsection \<open>Overrides that cannot be coerced\<close>

lemma py_int_abc: "py_int (PyStr ''abc'') = Inl ValueError"
  by code_simp

text \<open>
  C4, as stated, fails: an override that \<open>int()\<close> cannot coerce need not give a
  configuration error. For \<open>{"MODEL_ID": "gpt-4", "CHUNK_OVERLAP_CHARACTERS": [100]}\<close> the
  coercion raises \<open>TypeError\<close>, which no handler catches, and \<open>from_settings\<close> raises
  that \<open>TypeError\<close>.
\<close>

theorem C4_counterexample:
  "py_int (PyList [PyInt 100]) = Inl TypeError \<and>
   BaseConfig_from_settings example_env BaseConfig_init
     \<lparr>MODEL_ID = ''gpt-4'', TOKEN_LIMIT = None,
      CHUNK_OVERLAP_CHARACTERS = Some (PyList [PyInt 100])\<rparr>
     example_splitter_class example_length_calculator_class []
   = Inl TypeError"
  by (simp add: example_env_def BaseConfig_from_settings_def get_token_limit_def
      get_chunk_overlap_def)

text \<open>
  C4, amended. For every override value on which the integer coercion raises \<open>ValueError\<close>
  (for example a string that is not numeric), resolution fails with \<open>ImproperlyConfigured\<close>
  and the message contains the name of the offending field. This holds for each getter and
  for \<open>from_settings\<close> (for \<open>CHUNK_OVERLAP_CHARACTERS\<close> once the token limit has resolved,
  which comes first).
\<close>

theorem C4_ValueError_is_configuration_error:
  "(py_int v = Inl ValueError \<longrightarrow>
      (\<exists>msg. get_token_limit env m v = Inl (ImproperlyConfigured msg) \<and>
             sublist ''TOKEN_LIMIT'' msg) \<and>
      (\<exists>msg. get_chunk_overlap env m v = Inl (ImproperlyConfigured msg) \<and>
             sublist ''CHUNK_OVERLAP_CHARACTERS'' msg) \<and>
      (\<exists>msg. get_embedding_output_dimensions env m v = Inl (ImproperlyConfigured msg) \<and>
             sublist ''EMBEDDING_OUTPUT_DIMENSIONS'' msg)) \<and>
   (TOKEN_LIMIT s = Some v \<and> py_int v = Inl ValueError \<longrightarrow>
      (\<exists>msg. BaseConfig_from_settings env cls s tsc lcc kw = Inl (ImproperlyConfigured msg) \<and>
             sublist ''TOKEN_LIMIT'' msg)) \<and>
   (CHUNK_OVERLAP_CHARACTERS s' = Some v \<and> py_int v = Inl ValueError \<and>
    get_token_limit env (MODEL_ID s') (dict_get (TOKEN_LIMIT s')) = Inr t \<longrightarrow>
      (\<exists>msg. BaseConfig_from_settings env cls s' tsc lcc kw = Inl (ImproperlyConfigured msg) \<and>
             sublist ''CHUNK_OVERLAP_CHARACTERS'' msg)) \<and>
   (EMBEDDING_OUTPUT_DIMENSIONS es = Some v \<and> py_int v = Inl ValueError \<longrightarrow>
      (\<exists>msg. BaseEmbeddingConfig_from_settings env cls es tsc lcc kw
               = Inl (ImproperlyConfigured msg) \<and>
             sublist ''EMBEDDING_OUTPUT_DIMENSIONS'' msg))"
proof (intro conjI impI)
  assume h: "py_int v = Inl ValueError"
  show "\<exists>msg. get_token_limit env m v = Inl (ImproperlyConfigured msg) \<and>
             sublist ''TOKEN_LIMIT'' msg"
    using get_token_limit_ValueError [OF h] not_an_int_names(1) by blast
  show "\<exists>msg. get_chunk_overlap env m v = Inl (ImproperlyConfigured msg) \<and>
             sublist ''CHUNK_OVERLAP_CHARACTERS'' msg"
    using get_chunk_overlap_ValueError [OF h] not_an_int_names(2) by blast
  show "\<exists>msg. get_embedding_output_dimensions env m v = Inl (ImproperlyConfigured msg) \<and>
             sublist ''EMBEDDING_OUTPUT_DIMENSIONS'' msg"
    using get_embedding_output_dimensions_ValueError [OF h] not_an_int_names(3) by blast
next
  assume h: "TOKEN_LIMIT s = Some v \<and> py_int v = Inl ValueError"
  then have "get_token_limit env (MODEL_ID s) (dict_get (TOKEN_LIMIT s)) =
      Inl (ImproperlyConfigured
        (''\"TOKEN_LIMIT\" is not an \"int\", it is a \"'' @ py_type_repr v @ ''\".''))"
    using get_token_limit_ValueError [of v env "MODEL_ID s"] by simp
  from BaseConfig_from_settings_token_error [OF this]
  show "\<exists>msg. BaseConfig_from_settings env cls s tsc lcc kw = Inl (ImproperlyConfigured msg) \<and>
             sublist ''TOKEN_LIMIT'' msg"
    using not_an_int_names(1) by blast
next
  assume h: "CHUNK_OVERLAP_CHARACTERS s' = Some v \<and> py_int v = Inl ValueError \<and>
    get_token_limit env (MODEL_ID s') (dict_get (TOKEN_LIMIT s')) = Inr t"
  then have "get_chunk_overlap env (MODEL_ID s') (dict_get (CHUNK_OVERLAP_CHARACTERS s')) =
      Inl (ImproperlyConfigured
        (''\"CHUNK_OVERLAP_CHARACTERS\" is not an \"int\", it is a \"'' @ py_type_repr v @ ''\".''))"
    using get_chunk_overlap_ValueError [of v env "MODEL_ID s'"] by simp
  from BaseConfig_from_settings_chunk_error [OF _ this] h
  show "\<exists>msg. BaseConfig_from_settings env cls s' tsc lcc kw = Inl (ImproperlyConfigured msg) \<and>
             sublist ''CHUNK_OVERLAP_CHARACTERS'' msg"
    using not_an_int_names(2) by blast
next
  assume h: "EMBEDDING_OUTPUT_DIMENSIONS es = Some v \<and> py_int v = Inl ValueError"
  then have "get_embedding_output_dimensions env (MODEL_ID es)
        (dict_get (EMBEDDING_OUTPUT_DIMENSIONS es)) =
      Inl (ImproperlyConfigured
        (''\"EMBEDDING_OUTPUT_DIMENSIONS\" is not an \"int\", it is a \"''
           @ py_type_repr v @ ''\".''))"
    using get_embedding_output_dimensions_ValueError [of v env "MODEL_ID es"] by simp
  from BaseEmbeddingConfig_from_settings_embedding_error [OF this]
  show "\<exists>msg. BaseEmbeddingConfig_from_settings env cls es tsc lcc kw
               = Inl (ImproperlyConfigured msg) \<and>
             sublist ''EMBEDDING_OUTPUT_DIMENSIONS'' msg"
    using not_an_int_names(3) by blast
qed

theorem C4_ValueError_is_configuration_error_witness:
  \<open>py_int (PyStr ''abc'') = Inl ValueError \<and>
   BaseConfig_from_settings example_env BaseConfig_init
     \<lparr>MODEL_ID = ''gpt-4'', TOKEN_LIMIT = Some (PyStr ''abc''), CHUNK_OVERLAP_CHARACTERS = None\<rparr>
     example_splitter_class example_length_calculator_class []
   = Inl (ImproperlyConfigured ''"TOKEN_LIMIT" is not an "int", it is a "<class 'str'>".'') \<and>
   sublist ''TOKEN_LIMIT'' ''"TOKEN_LIMIT" is not an "int", it is a "<class 'str'>".'' \<and>
   BaseConfig_from_settings example_env BaseConfig_init
     \<lparr>MODEL_ID = ''gpt-4'', TOKEN_LIMIT = None, CHUNK_OVERLAP_CHARACTERS = Some (PyStr ''abc'')\<rparr>
     example_splitter_class example_length_calculator_class []
   = Inl (ImproperlyConfigured
       ''"CHUNK_OVERLAP_CHARACTERS" is not an "int", it is a "<class 'str'>".'') \<and>
   BaseEmbeddingConfig_from_settings example_env BaseEmbeddingConfig_init
     \<lparr>MODEL_ID = ''text-embed-1'', TOKEN_LIMIT = None, CHUNK_OVERLAP_CHARACTERS = None,
      EMBEDDING_OUTPUT_DIMENSIONS = Some (PyStr ''abc'')\<rparr>
     example_splitter_class example_length_calculator_class []
   = Inl (ImproperlyConfigured
       ''"EMBEDDING_OUTPUT_DIMENSIONS" is not an "int", it is a "<class 'str'>".'')\<close>
  using C4_ValueError_is_configuration_error
      [of "PyStr ''abc''" example_env "''gpt-4''"
        "\<lparr>MODEL_ID = ''gpt-4'', TOKEN_LIMIT = Some (PyStr ''abc''),
          CHUNK_OVERLAP_CHARACTERS = None\<rparr>"
        BaseConfig_init example_splitter_class example_length_calculator_class "[]"
        "\<lparr>MODEL_ID = ''gpt-4'', TOKEN_LIMIT = None,
          CHUNK_OVERLAP_CHARACTERS = Some (PyStr ''abc'')\<rparr>"
        8192
        "\<lparr>MODEL_ID = ''text-embed-1'', TOKEN_LIMIT = None, CHUNK_OVERLAP_CHARACTERS = None,
          EMBEDDING_OUTPUT_DIMENSIONS = Some (PyStr ''abc'')\<rparr>"]
    py_int_abc
  by (simp add: example_env_def BaseConfig_from_settings_def BaseEmbeddingConfig_from_settings_def
      get_token_limit_def get_chunk_overlap_def get_embedding_output_dimensions_def
      py_type_repr_def sublist_code)

subsection \<open>Where the defaults come from\<close>

text \<open>
  C5, as stated, fails for \<open>CHUNK_OVERLAP_CHARACTERS\<close>: the default chunk overlap is not
  looked up by model id. \<open>get_chunk_overlap\<close> calls \<open>tokens.get_default_chunk_overlap()\<close>
  without the model id and has no handler around it. A model that no table knows resolves
  with the same chunk overlap as \<open>gpt-4\<close>, and resolution does not fail.
\<close>

theorem C5_counterexample:
  "get_default_token_limit example_env ''unknown-model'' = Inl NoTokenLimitFound \<and>
   get_default_embedding_output_dimensions example_env ''unknown-model''
     = Inl EmbeddingOutputDimensionsNotFound \<and>
   BaseConfig_from_settings example_env BaseConfig_init
     \<lparr>MODEL_ID = ''unknown-model'', TOKEN_LIMIT = Some (PyInt 8000),
      CHUNK_OVERLAP_CHARACTERS = None\<rparr>
     example_splitter_class example_length_calculator_class []
   = Inr \<lparr>chunk_overlap_characters = 100, model_id = ''unknown-model'',
          text_splitter_class = example_splitter_class,
          text_splitter_length_calculator_class = example_length_calculator_class,
          token_limit = 8000\<rparr> \<and>
   BaseConfig_from_settings example_env BaseConfig_init
     \<lparr>MODEL_ID = ''gpt-4'', TOKEN_LIMIT = Some (PyInt 8000),
      CHUNK_OVERLAP_CHARACTERS = None\<rparr>
     example_splitter_class example_length_calculator_class []
   = Inr \<lparr>chunk_overlap_characters = 100, model_id = ''gpt-4'',
          text_splitter_class = example_splitter_class,
          text_splitter_length_calculator_class = example_length_calculator_class,
          token_limit = 8000\<rparr>"
  by (simp add: example_env_def BaseConfig_from_settings_def BaseConfig_init_def
      get_token_limit_def get_chunk_overlap_def)

text \<open>
  C5, amended. With the override absent, \<open>token_limit\<close> and (embedding variant)
  \<open>embedding_output_dimensions\<close> are the per-model default of the lookup, and resolution
  fails with a configuration error when the lookup has none for the model.
  \<open>chunk_overlap_characters\<close> is instead what the argument-less default provider returns:
  the same for every model id, with no per-model lookup and no configuration error of its
  own, so the field resolves for every model once the token limit has.
\<close>

theorem C5_default_lookup_when_absent:
  "(get_default_token_limit env m = Inr d \<longrightarrow> get_token_limit env m (dict_get None) = Inr d) \<and>
   (get_default_token_limit env m = Inl NoTokenLimitFound \<longrightarrow>
      (\<exists>msg. get_token_limit env m (dict_get None) = Inl (ImproperlyConfigured msg))) \<and>
   (get_default_embedding_output_dimensions env m = Inr d' \<longrightarrow>
      get_embedding_output_dimensions env m (dict_get None) = Inr d') \<and>
   (get_default_embedding_output_dimensions env m = Inl EmbeddingOutputDimensionsNotFound \<longrightarrow>
      (\<exists>msg. get_embedding_output_dimensions env m (dict_get None)
               = Inl (ImproperlyConfigured msg))) \<and>
   get_chunk_overlap env m (dict_get None) = get_default_chunk_overlap env \<and>
   get_chunk_overlap env m (dict_get None) = get_chunk_overlap env m' (dict_get None) \<and>
   (CHUNK_OVERLAP_CHARACTERS s = None \<and> get_default_chunk_overlap env = Inr c \<and>
    get_token_limit env (MODEL_ID s) (dict_get (TOKEN_LIMIT s)) = Inr t \<longrightarrow>
      BaseConfig_from_settings env BaseConfig_init s tsc lcc []
        = Inr \<lparr>chunk_overlap_characters = c, model_id = MODEL_ID s, text_splitter_class = tsc,
               text_splitter_length_calculator_class = lcc, token_limit = t\<rparr>)"
  by (simp add: get_token_limit_default get_token_limit_not_found
      get_embedding_output_dimensions_default get_embedding_output_dimensions_not_found
      get_chunk_overlap_default BaseConfig_from_settings_Inr)

theorem C5_default_lookup_when_absent_witness:
  \<open>get_token_limit example_env ''gpt-4'' (dict_get None) = Inr 8192 \<and>
   get_token_limit example_env ''unknown-model'' (dict_get None)
     = Inl (ImproperlyConfigured ''"TOKEN_LIMIT" is not configured for model "unknown-model".'') \<and>
   get_embedding_output_dimensions example_env ''text-embed-1'' (dict_get None) = Inr 768 \<and>
   get_embedding_output_dimensions example_env ''unknown-model'' (dict_get None)
     = Inl (ImproperlyConfigured
         ''"EMBEDDING_OUTPUT_DIMENSIONS" is not configured for model "unknown-model".'') \<and>
   get_chunk_overlap example_env ''unknown-model'' (dict_get None) = Inr 100 \<and>
   get_chunk_overlap example_env ''gpt-4'' (dict_get None) = Inr 100 \<and>
   BaseConfig_from_settings example_env BaseConfig_init
     \<lparr>MODEL_ID = ''unknown-model'', TOKEN_LIMIT = Some (PyInt 2048),
      CHUNK_OVERLAP_CHARACTERS = None\<rparr>
     example_splitter_class example_length_calculator_class []
   = Inr \<lparr>chunk_overlap_characters = 100, model_id = ''unknown-model'',
          text_splitter_class = example_splitter_class,
          text_splitter_length_calculator_class = example_length_calculator_class,
          token_limit = 2048\<rparr>\<close>
  using C5_default_lookup_when_absent
      [of example_env "''gpt-4''" 8192 768 "''unknown-model''"
        "\<lparr>MODEL_ID = ''unknown-model'', TOKEN_LIMIT = Some (PyInt 2048),
          CHUNK_OVERLAP_CHARACTERS = None\<rparr>"
        100 2048 example_splitter_class example_length_calculator_class]
    C5_default_lookup_when_absent
      [of example_env "''unknown-model''" 8192 768 "''gpt-4''"
        "\<lparr>MODEL_ID = ''unknown-model'', TOKEN_LIMIT = Some (PyInt 2048),
          CHUNK_OVERLAP_CHARACTERS = None\<rparr>"
        100 2048 example_splitter_class example_length_calculator_class]
    C5_default_lookup_when_absent
      [of example_env "''text-embed-1''" 512 768 "''gpt-4''"
        "\<lparr>MODEL_ID = ''unknown-model'', TOKEN_LIMIT = Some (PyInt 2048),
          CHUNK_OVERLAP_CHARACTERS = None\<rparr>"
        100 2048 example_splitter_class example_length_calculator_class]
  by (simp add: example_env_def get_token_limit_def get_embedding_output_dimensions_def
      get_chunk_overlap_def)

subsection \<open>All or nothing\<close>

text \<open>
  C6, as stated, fails: a failing resolution need not name the model. For
  \<open>{"MODEL_ID": "gpt-4", "TOKEN_LIMIT": "eight thousand"}\<close> the error is
  \<open>ImproperlyConfigured('"TOKEN_LIMIT" is not an "int", it is a "<class 'str'>".')\<close>: the
  message gives the field and the type of the value, and \<open>gpt-4\<close> does not occur in it.
\<close>

theorem C6_counterexample:
  \<open>BaseConfig_from_settings example_env BaseConfig_init
     \<lparr>MODEL_ID = ''gpt-4'', TOKEN_LIMIT = Some (PyStr ''eight thousand''),
      CHUNK_OVERLAP_CHARACTERS = None\<rparr>
     example_splitter_class example_length_calculator_class []
   = Inl (ImproperlyConfigured ''"TOKEN_LIMIT" is not an "int", it is a "<class 'str'>".'') \<and>
   \<not> sublist ''gpt-4'' ''"TOKEN_LIMIT" is not an "int", it is a "<class 'str'>".''\<close>
proof
  have "py_int (PyStr ''eight thousand'') = Inl ValueError"
    by code_simp
  then show \<open>BaseConfig_from_settings example_env BaseConfig_init
     \<lparr>MODEL_ID = ''gpt-4'', TOKEN_LIMIT = Some (PyStr ''eight thousand''),
      CHUNK_OVERLAP_CHARACTERS = None\<rparr>
     example_splitter_class example_length_calculator_class []
   = Inl (ImproperlyConfigured ''"TOKEN_LIMIT" is not an "int", it is a "<class 'str'>".'')\<close>
    by (simp add: BaseConfig_from_settings_def get_token_limit_def py_type_repr_def)
  show \<open>\<not> sublist ''gpt-4'' ''"TOKEN_LIMIT" is not an "int", it is a "<class 'str'>".''\<close>
    by (simp add: sublist_code)
qed

text \<open>
  C6, amended. Resolution is all or nothing. \<open>from_settings\<close> returns a Config exactly when
  every field resolves (and the constructor accepts the keyword arguments), and then every
  field of the Config is the resolved value; otherwise it raises the error of the first
  step that fails and returns no Config. The embedding variant resolves
  \<open>embedding_output_dimensions\<close> first and then delegates to the base resolution. A missing
  per-model default raises \<open>ImproperlyConfigured\<close> with a message naming the field and the
  model; a \<open>ValueError\<close> of the coercion raises \<open>ImproperlyConfigured\<close> with a message naming
  the field and the type of the value.
\<close>

theorem C6_all_or_nothing:
  "(BaseConfig_from_settings env BaseConfig_init s tsc lcc kw = Inr cfg \<longleftrightarrow>
      get_token_limit env (MODEL_ID s) (dict_get (TOKEN_LIMIT s)) = Inr (token_limit cfg) \<and>
      get_chunk_overlap env (MODEL_ID s) (dict_get (CHUNK_OVERLAP_CHARACTERS s))
        = Inr (chunk_overlap_characters cfg) \<and>
      model_id cfg = MODEL_ID s \<and> text_splitter_class cfg = tsc \<and>
      text_splitter_length_calculator_class cfg = lcc \<and> kw = []) \<and>
   (BaseConfig_from_settings env BaseConfig_init s tsc lcc kw = Inl e \<longleftrightarrow>
      get_token_limit env (MODEL_ID s) (dict_get (TOKEN_LIMIT s)) = Inl e \<or>
      (\<exists>t. get_token_limit env (MODEL_ID s) (dict_get (TOKEN_LIMIT s)) = Inr t \<and>
           get_chunk_overlap env (MODEL_ID s) (dict_get (CHUNK_OVERLAP_CHARACTERS s)) = Inl e) \<or>
      (\<exists>t c. get_token_limit env (MODEL_ID s) (dict_get (TOKEN_LIMIT s)) = Inr t \<and>
           get_chunk_overlap env (MODEL_ID s) (dict_get (CHUNK_OVERLAP_CHARACTERS s)) = Inr c \<and>
           kw \<noteq> [] \<and> e = TypeError)) \<and>
   (BaseEmbeddingConfig_from_settings env BaseEmbeddingConfig_init es tsc lcc kw = Inr ecfg \<longleftrightarrow>
      (\<exists>d. get_embedding_output_dimensions env (MODEL_ID es)
              (dict_get (EMBEDDING_OUTPUT_DIMENSIONS es)) = Inr d \<and>
           embedding_output_dimensions ecfg =
             (case map_of kw ''embedding_output_dimensions'' of
                None \<Rightarrow> PyInt d | Some w \<Rightarrow> w)) \<and>
      get_token_limit env (MODEL_ID es) (dict_get (TOKEN_LIMIT es)) = Inr (token_limit ecfg) \<and>
      get_chunk_overlap env (MODEL_ID es) (dict_get (CHUNK_OVERLAP_CHARACTERS es))
        = Inr (chunk_overlap_characters ecfg) \<and>
      model_id ecfg = MODEL_ID es \<and> text_splitter_class ecfg = tsc \<and>
      text_splitter_length_calculator_class ecfg = lcc \<and>
      list_all (\<lambda>kv. fst kv = ''embedding_output_dimensions'') kw) \<and>
   (get_embedding_output_dimensions env (MODEL_ID es) (dict_get (EMBEDDING_OUTPUT_DIMENSIONS es))
      = Inl e' \<longrightarrow>
      BaseEmbeddingConfig_from_settings env cls es tsc lcc kw = Inl e') \<and>
   (get_embedding_output_dimensions env (MODEL_ID es) (dict_get (EMBEDDING_OUTPUT_DIMENSIONS es))
      = Inr k \<longrightarrow>
      BaseEmbeddingConfig_from_settings env cls es tsc lcc kw =
        BaseConfig_from_settings env cls es tsc lcc
          (setdefault kw ''embedding_output_dimensions'' (PyInt k))) \<and>
   (get_default_token_limit env m = Inl NoTokenLimitFound \<longrightarrow>
      (\<exists>msg. get_token_limit env m PyNone = Inl (ImproperlyConfigured msg) \<and>
             sublist ''TOKEN_LIMIT'' msg \<and> sublist m msg)) \<and>
   (get_default_embedding_output_dimensions env m = Inl EmbeddingOutputDimensionsNotFound \<longrightarrow>
      (\<exists>msg. get_embedding_output_dimensions env m PyNone = Inl (ImproperlyConfigured msg) \<and>
             sublist ''EMBEDDING_OUTPUT_DIMENSIONS'' msg \<and> sublist m msg)) \<and>
   (py_int v = Inl ValueError \<longrightarrow>
      (\<exists>msg. get_token_limit env m v = Inl (ImproperlyConfigured msg) \<and>
             sublist ''TOKEN_LIMIT'' msg \<and> sublist (py_type_repr v) msg) \<and>
      (\<exists>msg. get_chunk_overlap env m v = Inl (ImproperlyConfigured msg) \<and>
             sublist ''CHUNK_OVERLAP_CHARACTERS'' msg \<and> sublist (py_type_repr v) msg) \<and>
      (\<exists>msg. get_embedding_output_dimensions env m v = Inl (ImproperlyConfigured msg) \<and>
             sublist ''EMBEDDING_OUTPUT_DIMENSIONS'' msg \<and> sublist (py_type_repr v) msg))"
proof (intro conjI)
  show "BaseConfig_from_settings env BaseConfig_init s tsc lcc kw = Inr cfg \<longleftrightarrow>
      get_token_limit env (MODEL_ID s) (dict_get (TOKEN_LIMIT s)) = Inr (token_limit cfg) \<and>
      get_chunk_overlap env (MODEL_ID s) (dict_get (CHUNK_OVERLAP_CHARACTERS s))
        = Inr (chunk_overlap_characters cfg) \<and>
      model_id cfg = MODEL_ID s \<and> text_splitter_class cfg = tsc \<and>
      text_splitter_length_calculator_class cfg = lcc \<and> kw = []"
    by (cases cfg) (auto simp: BaseConfig_from_settings_Inr)
  show "BaseConfig_from_settings env BaseConfig_init s tsc lcc kw = Inl e \<longleftrightarrow>
      get_token_limit env (MODEL_ID s) (dict_get (TOKEN_LIMIT s)) = Inl e \<or>
      (\<exists>t. get_token_limit env (MODEL_ID s) (dict_get (TOKEN_LIMIT s)) = Inr t \<and>
           get_chunk_overlap env (MODEL_ID s) (dict_get (CHUNK_OVERLAP_CHARACTERS s)) = Inl e) \<or>
      (\<exists>t c. get_token_limit env (MODEL_ID s) (dict_get (TOKEN_LIMIT s)) = Inr t \<and>
           get_chunk_overlap env (MODEL_ID s) (dict_get (CHUNK_OVERLAP_CHARACTERS s)) = Inr c \<and>
           kw \<noteq> [] \<and> e = TypeError)"
    by (auto simp: BaseConfig_from_settings_def BaseConfig_init_def split: sum.splits)
  show "BaseEmbeddingConfig_from_settings env BaseEmbeddingConfig_init es tsc lcc kw = Inr ecfg \<longleftrightarrow>
      (\<exists>d. get_embedding_output_dimensions env (MODEL_ID es)
              (dict_get (EMBEDDING_OUTPUT_DIMENSIONS es)) = Inr d \<and>
           embedding_output_dimensions ecfg =
             (case map_of kw ''embedding_output_dimensions'' of
                None \<Rightarrow> PyInt d | Some w \<Rightarrow> w)) \<and>
      get_token_limit env (MODEL_ID es) (dict_get (TOKEN_LIMIT es)) = Inr (token_limit ecfg) \<and>
      get_chunk_overlap env (MODEL_ID es) (dict_get (CHUNK_OVERLAP_CHARACTERS es))
        = Inr (chunk_overlap_characters ecfg) \<and>
      model_id ecfg = MODEL_ID es \<and> text_splitter_class ecfg = tsc \<and>
      text_splitter_length_calculator_class ecfg = lcc \<and>
      list_all (\<lambda>kv. fst kv = ''embedding_output_dimensions'') kw"
    by (cases ecfg) (auto simp: BaseEmbeddingConfig_from_settings_Inr)
  show "get_embedding_output_dimensions env (MODEL_ID es)
        (dict_get (EMBEDDING_OUTPUT_DIMENSIONS es)) = Inl e' \<longrightarrow>
      BaseEmbeddingConfig_from_settings env cls es tsc lcc kw = Inl e'"
    by (simp add: BaseEmbeddingConfig_from_settings_embedding_error)
  show "get_embedding_output_dimensions env (MODEL_ID es)
        (dict_get (EMBEDDING_OUTPUT_DIMENSIONS es)) = Inr k \<longrightarrow>
      BaseEmbeddingConfig_from_settings env cls es tsc lcc kw =
        BaseConfig_from_settings env cls es tsc lcc
          (setdefault kw ''embedding_output_dimensions'' (PyInt k))"
    by (simp add: BaseEmbeddingConfig_from_settings_delegates)
  show "get_default_token_limit env m = Inl NoTokenLimitFound \<longrightarrow>
      (\<exists>msg. get_token_limit env m PyNone = Inl (ImproperlyConfigured msg) \<and>
             sublist ''TOKEN_LIMIT'' msg \<and> sublist m msg)"
    using get_token_limit_not_found [of env m] token_limit_not_configured_names [of m]
    by blast
  show "get_default_embedding_output_dimensions env m = Inl EmbeddingOutputDimensionsNotFound \<longrightarrow>
      (\<exists>msg. get_embedding_output_dimensions env m PyNone = Inl (ImproperlyConfigured msg) \<and>
             sublist ''EMBEDDING_OUTPUT_DIMENSIONS'' msg \<and> sublist m msg)"
    using get_embedding_output_dimensions_not_found [of env m]
      embedding_output_dimensions_not_configured_names [of m]
    by blast
  show "py_int v = Inl ValueError \<longrightarrow>
      (\<exists>msg. get_token_limit env m v = Inl (ImproperlyConfigured msg) \<and>
             sublist ''TOKEN_LIMIT'' msg \<and> sublist (py_type_repr v) msg) \<and>
      (\<exists>msg. get_chunk_overlap env m v = Inl (ImproperlyConfigured msg) \<and>
             sublist ''CHUNK_OVERLAP_CHARACTERS'' msg \<and> sublist (py_type_repr v) msg) \<and>
      (\<exists>msg. get_embedding_output_dimensions env m v = Inl (ImproperlyConfigured msg) \<and>
             sublist ''EMBEDDING_OUTPUT_DIMENSIONS'' msg \<and> sublist (py_type_repr v) msg)"
    using get_token_limit_ValueError [of v env m] get_chunk_overlap_ValueError [of v env m]
      get_embedding_output_dimensions_ValueError [of v env m]
      not_an_int_names [of "py_type_repr v"] sublist_appendI
    by blast
qed

theorem C6_all_or_nothing_witness:
  \<open>BaseConfig_from_settings example_env BaseConfig_init
     \<lparr>MODEL_ID = ''gpt-4'', TOKEN_LIMIT = None, CHUNK_OVERLAP_CHARACTERS = None\<rparr>
     example_splitter_class example_length_calculator_class []
   = Inr \<lparr>chunk_overlap_characters = 100, model_id = ''gpt-4'',
          text_splitter_class = example_splitter_class,
          text_splitter_length_calculator_class = example_length_calculator_class,
          token_limit = 8192\<rparr> \<and>
   BaseConfig_from_settings example_env BaseConfig_init
     \<lparr>MODEL_ID = ''gpt-4'', TOKEN_LIMIT = None, CHUNK_OVERLAP_CHARACTERS = None\<rparr>
     example_splitter_class example_length_calculator_class [(''verbose'', PyBool True)]
   = Inl TypeError \<and>
   BaseEmbeddingConfig_from_settings example_env BaseEmbeddingConfig_init
     \<lparr>MODEL_ID = ''text-embed-1'', TOKEN_LIMIT = None, CHUNK_OVERLAP_CHARACTERS = None,
      EMBEDDING_OUTPUT_DIMENSIONS = Some (PyInt 1536)\<rparr>
     example_splitter_class example_length_calculator_class []
   = Inr \<lparr>chunk_overlap_characters = 100, model_id = ''text-embed-1'',
          text_splitter_class = example_splitter_class,
          text_splitter_length_calculator_class = example_length_calculator_class,
          token_limit = 512, embedding_output_dimensions = PyInt 1536\<rparr> \<and>
   BaseEmbeddingConfig_from_settings example_env BaseEmbeddingConfig_init
     \<lparr>MODEL_ID = ''unknown-model'', TOKEN_LIMIT = Some (PyInt 8000),
      CHUNK_OVERLAP_CHARACTERS = None, EMBEDDING_OUTPUT_DIMENSIONS = None\<rparr>
     example_splitter_class example_length_calculator_class []
   = Inl (ImproperlyConfigured
       ''"EMBEDDING_OUTPUT_DIMENSIONS" is not configured for model "unknown-model".'') \<and>
   get_token_limit example_env ''unknown-model'' PyNone
     = Inl (ImproperlyConfigured ''"TOKEN_LIMIT" is not configured for model "unknown-model".'') \<and>
   py_int (PyStr ''abc'') = Inl ValueError \<and>
   get_chunk_overlap example_env ''unknown-model'' (PyStr ''abc'')
     = Inl (ImproperlyConfigured
         ''"CHUNK_OVERLAP_CHARACTERS" is not an "int", it is a "<class 'str'>".'')\<close>
  using C6_all_or_nothing
      [where env = example_env
        and s = "\<lparr>MODEL_ID = ''gpt-4'', TOKEN_LIMIT = None, CHUNK_OVERLAP_CHARACTERS = None\<rparr>"
        and tsc = example_splitter_class and lcc = example_length_calculator_class
        and kw = "[]"
        and cfg = "\<lparr>chunk_overlap_characters = 100, model_id = ''gpt-4'',
          text_splitter_class = example_splitter_class,
          text_splitter_length_calculator_class = example_length_calculator_class,
          token_limit = 8192\<rparr>"
        and e = TypeError
        and es = "\<lparr>MODEL_ID = ''text-embed-1'', TOKEN_LIMIT = None,
          CHUNK_OVERLAP_CHARACTERS = None, EMBEDDING_OUTPUT_DIMENSIONS = Some (PyInt 1536)\<rparr>"
        and ecfg = "\<lparr>chunk_overlap_characters = 100, model_id = ''text-embed-1'',
          text_splitter_class = example_splitter_class,
          text_splitter_length_calculator_class = example_length_calculator_class,
          token_limit = 512, embedding_output_dimensions = PyInt 1536\<rparr>"
        and cls = BaseEmbeddingConfig_init and k = 1536
        and m = "''unknown-model''" and v = "PyStr ''abc''"]
    C6_all_or_nothing
      [where env = example_env
        and s = "\<lparr>MODEL_ID = ''gpt-4'', TOKEN_LIMIT = None, CHUNK_OVERLAP_CHARACTERS = None\<rparr>"
        and tsc = example_splitter_class and lcc = example_length_calculator_class
        and kw = "[(''verbose'', PyBool True)]"
        and e = TypeError]
    C6_all_or_nothing
      [where env = example_env
        and tsc = example_splitter_class and lcc = example_length_calculator_class
        and kw = "[]"
        and es = "\<lparr>MODEL_ID = ''unknown-model'', TOKEN_LIMIT = Some (PyInt 8000),
          CHUNK_OVERLAP_CHARACTERS = None, EMBEDDING_OUTPUT_DIMENSIONS = None\<rparr>"
        and cls = BaseEmbeddingConfig_init
        and e' = "ImproperlyConfigured
          ''\"EMBEDDING_OUTPUT_DIMENSIONS\" is not configured for model \"unknown-model\".''"]
    py_int_abc
  by (simp add: example_env_def get_token_limit_def get_chunk_overlap_def
      get_embedding_output_dimensions_def py_type_repr_def
      BaseConfig_from_settings_def BaseEmbeddingConfig_from_settings_def
      BaseConfig_init_def BaseEmbeddingConfig_init_def setdefault_def)

subsection \<open>A string override\<close>

lemma py_int_8000: "py_int (PyStr ''8000'') = Inr 8000"
  by code_simp

text \<open>
  C7. A string override that denotes an integer is coerced: resolving
  \<open>{"MODEL_ID": "gpt-4", "TOKEN_LIMIT": "8000"}\<close> returns a Config whose \<open>token_limit\<close> is
  the integer 8000, whatever the chunk-overlap provider returns as default. The same
  mapping resolves in the embedding variant when \<open>gpt-4\<close> has a registered embedding
  dimension. Both calls pass no further keyword arguments.
\<close>

theorem C7_string_override_coerced:
  "(get_default_chunk_overlap env = Inr d \<longrightarrow>
      BaseConfig_from_settings env BaseConfig_init
        \<lparr>MODEL_ID = ''gpt-4'', TOKEN_LIMIT = Some (PyStr ''8000''), CHUNK_OVERLAP_CHARACTERS = None\<rparr>
        tsc lcc []
      = Inr \<lparr>chunk_overlap_characters = d, model_id = ''gpt-4'', text_splitter_class = tsc,
             text_splitter_length_calculator_class = lcc, token_limit = 8000\<rparr>) \<and>
   (get_default_chunk_overlap env = Inr d \<and>
    get_default_embedding_output_dimensions env ''gpt-4'' = Inr k \<longrightarrow>
      BaseEmbeddingConfig_from_settings env BaseEmbeddingConfig_init
        \<lparr>MODEL_ID = ''gpt-4'', TOKEN_LIMIT = Some (PyStr ''8000''), CHUNK_OVERLAP_CHARACTERS = None,
         EMBEDDING_OUTPUT_DIMENSIONS = None\<rparr>
        tsc lcc []
      = Inr \<lparr>chunk_overlap_characters = d, model_id = ''gpt-4'', text_splitter_class = tsc,
             text_splitter_length_calculator_class = lcc, token_limit = 8000,
             embedding_output_dimensions = PyInt k\<rparr>)"
proof -
  have t: "get_token_limit env ''gpt-4'' (PyStr ''8000'') = Inr 8000"
    by (rule get_token_limit_override [OF py_int_8000])
  show ?thesis
    by (simp add: BaseConfig_from_settings_Inr BaseEmbeddingConfig_from_settings_Inr t
        get_chunk_overlap_default get_embedding_output_dimensions_default)
qed

theorem C7_string_override_coerced_witness:
  "BaseConfig_from_settings example_env BaseConfig_init
     \<lparr>MODEL_ID = ''gpt-4'', TOKEN_LIMIT = Some (PyStr ''8000''), CHUNK_OVERLAP_CHARACTERS = None\<rparr>
     example_splitter_class example_length_calculator_class []
   = Inr \<lparr>chunk_overlap_characters = 100, model_id = ''gpt-4'',
          text_splitter_class = example_splitter_class,
          text_splitter_length_calculator_class = example_length_calculator_class,
          token_limit = 8000\<rparr> \<and>
   BaseEmbeddingConfig_from_settings
     (example_env\<lparr>get_default_embedding_output_dimensions := (\<lambda>m. Inr 1536)\<rparr>)
     BaseEmbeddingConfig_init
     \<lparr>MODEL_ID = ''gpt-4'', TOKEN_LIMIT = Some (PyStr ''8000''), CHUNK_OVERLAP_CHARACTERS = None,
      EMBEDDING_OUTPUT_DIMENSIONS = None\<rparr>
     example_splitter_class example_length_calculator_class []
   = Inr \<lparr>chunk_overlap_characters = 100, model_id = ''gpt-4'',
          text_splitter_class = example_splitter_class,
          text_splitter_length_calculator_class = example_length_calculator_class,
          token_limit = 8000, embedding_output_dimensions = PyInt 1536\<rparr>"
  using C7_string_override_coerced [of example_env 100
      example_splitter_class example_length_calculator_class 1536]
    C7_string_override_coerced
      [of "example_env\<lparr>get_default_embedding_output_dimensions := (\<lambda>m. Inr 1536)\<rparr>" 100
        example_splitter_class example_length_calculator_class 1536]
  by (simp add: example_env_def)

subsection \<open>The text splitter\<close>

text \<open>
  C8. \<open>get_text_splitter\<close> calls the Config's text splitter class with \<open>chunk_size\<close> equal
  to the Config's \<open>token_limit\<close>, \<open>chunk_overlap\<close> equal to its \<open>chunk_overlap_characters\<close>
  and \<open>length_function\<close> the \<open>get_splitter_length\<close> method of a new instance of the
  Config's length calculator class. This is so for every backend, whatever its Config
  (base or embedding), its splitter class and its calculator class.
\<close>

theorem C8_text_splitter_arguments:
  "get_text_splitter self =
     text_splitter_class (config self)
       \<lparr>chunk_size = token_limit (config self),
        chunk_overlap = chunk_overlap_characters (config self),
        length_function =
          get_splitter_length (text_splitter_length_calculator_class (config self) ())\<rparr> \<and>
   (\<exists>args. get_text_splitter (BaseBackend_init cfg) = text_splitter_class cfg args \<and>
      chunk_size args = token_limit cfg \<and>
      chunk_overlap args = chunk_overlap_characters cfg \<and>
      (\<forall>text. length_function args text
         = get_splitter_length (text_splitter_length_calculator_class cfg ()) text))"
proof
  show "get_text_splitter self =
     text_splitter_class (config self)
       \<lparr>chunk_size = token_limit (config self),
        chunk_overlap = chunk_overlap_characters (config self),
        length_function =
          get_splitter_length (text_splitter_length_calculator_class (config self) ())\<rparr>"
    by (simp add: get_text_splitter_def get_splitter_length_calculator_def)
next
  let ?args = "\<lparr>chunk_size = token_limit cfg,
        chunk_overlap = chunk_overlap_characters cfg,
        length_function = get_splitter_length (text_splitter_length_calculator_class cfg ())\<rparr>"
  have "get_text_splitter (BaseBackend_init cfg) = text_splitter_class cfg ?args"
    by (simp add: get_text_splitter_def get_splitter_length_calculator_def BaseBackend_init_def)
  moreover have "chunk_size ?args = token_limit cfg"
    and "chunk_overlap ?args = chunk_overlap_characters cfg"
    and "\<forall>text. length_function ?args text
         = get_splitter_length (text_splitter_length_calculator_class cfg ()) text"
    by simp_all
  ultimately show "\<exists>args. get_text_splitter (BaseBackend_init cfg) = text_splitter_class cfg args \<and>
      chunk_size args = token_limit cfg \<and>
      chunk_overlap args = chunk_overlap_characters cfg \<and>
      (\<forall>text. length_function args text
         = get_splitter_length (text_splitter_length_calculator_class cfg ()) text)"
    by blast
qed

subsection \<open>None and absent keys\<close>

lemma BaseConfig_from_settings_reads:
  "MODEL_ID s = MODEL_ID s' \<Longrightarrow>
   dict_get (TOKEN_LIMIT s) = dict_get (TOKEN_LIMIT s') \<Longrightarrow>
   dict_get (CHUNK_OVERLAP_CHARACTERS s) = dict_get (CHUNK_OVERLAP_CHARACTERS s') \<Longrightarrow>
   BaseConfig_from_settings env cls s tsc lcc kw = BaseConfig_from_settings env cls s' tsc lcc kw"
  by (simp add: BaseConfig_from_settings_def split: sum.split)

lemma BaseEmbeddingConfig_from_settings_reads:
  "MODEL_ID s = MODEL_ID s' \<Longrightarrow>
   dict_get (TOKEN_LIMIT s) = dict_get (TOKEN_LIMIT s') \<Longrightarrow>
   dict_get (CHUNK_OVERLAP_CHARACTERS s) = dict_get (CHUNK_OVERLAP_CHARACTERS s') \<Longrightarrow>
   dict_get (EMBEDDING_OUTPUT_DIMENSIONS s) = dict_get (EMBEDDING_OUTPUT_DIMENSIONS s') \<Longrightarrow>
   BaseEmbeddingConfig_from_settings env cls s tsc lcc kw
     = BaseEmbeddingConfig_from_settings env cls s' tsc lcc kw"
  by (simp add: BaseEmbeddingConfig_from_settings_def
      BaseConfig_from_settings_reads [of s s' env cls tsc lcc] split: sum.split)

text \<open>
  C9. An override key set to \<open>None\<close> is the same as an absent key: \<open>config.get\<close> hands
  \<open>None\<close> to the getter in both cases, so each getter and both \<open>from_settings\<close> give the
  same result (the same Config or the same error) for \<open>TOKEN_LIMIT\<close>,
  \<open>CHUNK_OVERLAP_CHARACTERS\<close> and \<open>EMBEDDING_OUTPUT_DIMENSIONS\<close>, and that result is the one
  of the default lookup.
\<close>

theorem C9_none_is_absent:
  "get_token_limit env m (dict_get (Some PyNone)) = get_token_limit env m (dict_get None) \<and>
   get_chunk_overlap env m (dict_get (Some PyNone)) = get_chunk_overlap env m (dict_get None) \<and>
   get_embedding_output_dimensions env m (dict_get (Some PyNone))
     = get_embedding_output_dimensions env m (dict_get None) \<and>
   BaseConfig_from_settings env cls (s\<lparr>TOKEN_LIMIT := Some PyNone\<rparr>) tsc lcc kw
     = BaseConfig_from_settings env cls (s\<lparr>TOKEN_LIMIT := None\<rparr>) tsc lcc kw \<and>
   BaseConfig_from_settings env cls (s\<lparr>CHUNK_OVERLAP_CHARACTERS := Some PyNone\<rparr>) tsc lcc kw
     = BaseConfig_from_settings env cls (s\<lparr>CHUNK_OVERLAP_CHARACTERS := None\<rparr>) tsc lcc kw \<and>
   BaseEmbeddingConfig_from_settings env cls (es\<lparr>TOKEN_LIMIT := Some PyNone\<rparr>) tsc lcc kw
     = BaseEmbeddingConfig_from_settings env cls (es\<lparr>TOKEN_LIMIT := None\<rparr>) tsc lcc kw \<and>
   BaseEmbeddingConfig_from_settings env cls (es\<lparr>CHUNK_OVERLAP_CHARACTERS := Some PyNone\<rparr>)
       tsc lcc kw
     = BaseEmbeddingConfig_from_settings env cls (es\<lparr>CHUNK_OVERLAP_CHARACTERS := None\<rparr>)
       tsc lcc kw \<and>
   BaseEmbeddingConfig_from_settings env cls (es\<lparr>EMBEDDING_OUTPUT_DIMENSIONS := Some PyNone\<rparr>)
       tsc lcc kw
     = BaseEmbeddingConfig_from_settings env cls (es\<lparr>EMBEDDING_OUTPUT_DIMENSIONS := None\<rparr>)
       tsc lcc kw \<and>
   get_token_limit env m (dict_get (Some PyNone)) =
     (case get_default_token_limit env m of
        Inr d \<Rightarrow> Inr d
      | Inl e \<Rightarrow>
          if e = NoTokenLimitFound then
            Inl (ImproperlyConfigured
              (''\"TOKEN_LIMIT\" is not configured for model \"'' @ m @ ''\".''))
          else Inl e) \<and>
   get_chunk_overlap env m (dict_get (Some PyNone)) = get_default_chunk_overlap env \<and>
   get_embedding_output_dimensions env m (dict_get (Some PyNone)) =
     (case get_default_embedding_output_dimensions env m of
        Inr d \<Rightarrow> Inr d
      | Inl e \<Rightarrow>
          if e = EmbeddingOutputDimensionsNotFound then
            Inl (ImproperlyConfigured
              (''\"EMBEDDING_OUTPUT_DIMENSIONS\" is not configured for model \"'' @ m @ ''\".''))
          else Inl e)"
proof (intro conjI)
  show "BaseConfig_from_settings env cls (s\<lparr>TOKEN_LIMIT := Some PyNone\<rparr>) tsc lcc kw
     = BaseConfig_from_settings env cls (s\<lparr>TOKEN_LIMIT := None\<rparr>) tsc lcc kw"
    by (rule BaseConfig_from_settings_reads) simp_all
  show "BaseConfig_from_settings env cls (s\<lparr>CHUNK_OVERLAP_CHARACTERS := Some PyNone\<rparr>) tsc lcc kw
     = BaseConfig_from_settings env cls (s\<lparr>CHUNK_OVERLAP_CHARACTERS := None\<rparr>) tsc lcc kw"
    by (rule BaseConfig_from_settings_reads) simp_all
  show "BaseEmbeddingConfig_from_settings env cls (es\<lparr>TOKEN_LIMIT := Some PyNone\<rparr>) tsc lcc kw
     = BaseEmbeddingConfig_from_settings env cls (es\<lparr>TOKEN_LIMIT := None\<rparr>) tsc lcc kw"
    by (rule BaseEmbeddingConfig_from_settings_reads) simp_all
  show "BaseEmbeddingConfig_from_settings env cls (es\<lparr>CHUNK_OVERLAP_CHARACTERS := Some PyNone\<rparr>)
       tsc lcc kw
     = BaseEmbeddingConfig_from_settings env cls (es\<lparr>CHUNK_OVERLAP_CHARACTERS := None\<rparr>)
       tsc lcc kw"
    by (rule BaseEmbeddingConfig_from_settings_reads) simp_all
  show "BaseEmbeddingConfig_from_settings env cls (es\<lparr>EMBEDDING_OUTPUT_DIMENSIONS := Some PyNone\<rparr>)
       tsc lcc kw
     = BaseEmbeddingConfig_from_settings env cls (es\<lparr>EMBEDDING_OUTPUT_DIMENSIONS := None\<rparr>)
       tsc lcc kw"
    by (rule BaseEmbeddingConfig_from_settings_reads) simp_all
qed (simp_all add: get_token_limit_def get_chunk_overlap_def get_embedding_output_dimensions_def)

subsection \<open>What the coercion catches\<close>

lemma trunc_8_5: "(if (0::rat) \<le> 17 / 2 then \<lfloor>17 / 2 :: rat\<rfloor> else \<lceil>17 / 2 :: rat\<rceil>) = 8"
  by code_simp

lemma trunc_neg_8_5:
  "(if (0::rat) \<le> - (17 / 2) then \<lfloor>- (17 / 2) :: rat\<rfloor> else \<lceil>- (17 / 2) :: rat\<rceil>) = - 8"
  by code_simp

text \<open>
  C10. The coercion catches only \<open>ValueError\<close>. A finite float override is truncated
  toward zero and is the resolved value (8.5 gives 8, -8.5 gives -8), and resolution
  succeeds with it. A list override makes \<open>int()\<close> raise \<open>TypeError\<close>, which leaves the
  getter and \<open>from_settings\<close> as it is; so does every exception of \<open>int()\<close> other than
  \<open>ValueError\<close> on a present override. Only \<open>ValueError\<close> becomes \<open>ImproperlyConfigured\<close>.
\<close>

theorem C10_only_ValueError_is_caught:
  "get_token_limit env m (PyFloat (Finite q)) = Inr (if 0 \<le> q then \<lfloor>q\<rfloor> else \<lceil>q\<rceil>) \<and>
   get_chunk_overlap env m (PyFloat (Finite q)) = Inr (if 0 \<le> q then \<lfloor>q\<rfloor> else \<lceil>q\<rceil>) \<and>
   get_embedding_output_dimensions env m (PyFloat (Finite q))
     = Inr (if 0 \<le> q then \<lfloor>q\<rfloor> else \<lceil>q\<rceil>) \<and>
   get_token_limit env m (PyFloat (Finite (17 / 2))) = Inr 8 \<and>
   get_token_limit env m (PyFloat (Finite (- (17 / 2)))) = Inr (- 8) \<and>
   (get_chunk_overlap env (MODEL_ID s) (dict_get (CHUNK_OVERLAP_CHARACTERS s)) = Inr c \<and>
    TOKEN_LIMIT s = Some (PyFloat (Finite (17 / 2))) \<longrightarrow>
      BaseConfig_from_settings env BaseConfig_init s tsc lcc []
        = Inr \<lparr>chunk_overlap_characters = c, model_id = MODEL_ID s, text_splitter_class = tsc,
               text_splitter_length_calculator_class = lcc, token_limit = 8\<rparr>) \<and>
   get_token_limit env m (PyList xs) = Inl TypeError \<and>
   get_chunk_overlap env m (PyList xs) = Inl TypeError \<and>
   get_embedding_output_dimensions env m (PyList xs) = Inl TypeError \<and>
   (TOKEN_LIMIT s' = Some (PyList xs) \<longrightarrow>
      BaseConfig_from_settings env cls s' tsc lcc kw = Inl TypeError) \<and>
   (EMBEDDING_OUTPUT_DIMENSIONS es = Some (PyList xs) \<longrightarrow>
      BaseEmbeddingConfig_from_settings env cls es tsc lcc kw = Inl TypeError) \<and>
   (v \<noteq> PyNone \<and> py_int v = Inl e \<and> e \<noteq> ValueError \<longrightarrow>
      get_token_limit env m v = Inl e \<and>
      get_chunk_overlap env m v = Inl e \<and>
      get_embedding_output_dimensions env m v = Inl e) \<and>
   (py_int w = Inl ValueError \<longrightarrow>
      (\<exists>msg. get_token_limit env m w = Inl (ImproperlyConfigured msg)) \<and>
      (\<exists>msg. get_chunk_overlap env m w = Inl (ImproperlyConfigured msg)) \<and>
      (\<exists>msg. get_embedding_output_dimensions env m w = Inl (ImproperlyConfigured msg)))"
proof -
  have f: "py_int (PyFloat (Finite q)) = Inr (if 0 \<le> q then \<lfloor>q\<rfloor> else \<lceil>q\<rceil>)"
    by simp
  have g: "py_int (PyFloat (Finite (17 / 2))) = Inr 8"
    using trunc_8_5 by simp
  have h: "py_int (PyFloat (Finite (- (17 / 2)))) = Inr (- 8)"
    using trunc_neg_8_5 by simp
  have l: "py_int (PyList xs) = Inl TypeError"
    by simp
  have t8: "get_token_limit env (MODEL_ID s) (PyFloat (Finite (17 / 2))) = Inr 8"
    by (rule get_token_limit_override [OF g])
  have 1: "get_token_limit env m (PyFloat (Finite q)) = Inr (if 0 \<le> q then \<lfloor>q\<rfloor> else \<lceil>q\<rceil>)"
    by (rule get_token_limit_override [OF f])
  have 2: "get_chunk_overlap env m (PyFloat (Finite q)) = Inr (if 0 \<le> q then \<lfloor>q\<rfloor> else \<lceil>q\<rceil>)"
    by (rule get_chunk_overlap_override [OF f])
  have 3: "get_embedding_output_dimensions env m (PyFloat (Finite q))
      = Inr (if 0 \<le> q then \<lfloor>q\<rfloor> else \<lceil>q\<rceil>)"
    by (rule get_embedding_output_dimensions_override [OF f])
  have 4: "get_token_limit env m (PyFloat (Finite (17 / 2))) = Inr 8"
    by (rule get_token_limit_override [OF g])
  have 5: "get_token_limit env m (PyFloat (Finite (- (17 / 2)))) = Inr (- 8)"
    by (rule get_token_limit_override [OF h])
  have 6: "get_chunk_overlap env (MODEL_ID s) (dict_get (CHUNK_OVERLAP_CHARACTERS s)) = Inr c \<and>
      TOKEN_LIMIT s = Some (PyFloat (Finite (17 / 2))) \<longrightarrow>
      BaseConfig_from_settings env BaseConfig_init s tsc lcc []
        = Inr \<lparr>chunk_overlap_characters = c, model_id = MODEL_ID s, text_splitter_class = tsc,
               text_splitter_length_calculator_class = lcc, token_limit = 8\<rparr>"
    using t8 by (auto simp: BaseConfig_from_settings_Inr)
  have 7: "get_token_limit env m' (PyList xs) = Inl TypeError" for m'
    by (rule get_token_limit_other_error [OF l]) simp_all
  have 8: "get_chunk_overlap env m (PyList xs) = Inl TypeError"
    by (rule get_chunk_overlap_other_error [OF l]) simp_all
  have 9: "get_embedding_output_dimensions env m' (PyList xs) = Inl TypeError" for m'
    by (rule get_embedding_output_dimensions_other_error [OF l]) simp_all
  have 10: "TOKEN_LIMIT s' = Some (PyList xs) \<longrightarrow>
      BaseConfig_from_settings env cls s' tsc lcc kw = Inl TypeError"
    using 7 by (auto intro: BaseConfig_from_settings_token_error)
  have 11: "EMBEDDING_OUTPUT_DIMENSIONS es = Some (PyList xs) \<longrightarrow>
      BaseEmbeddingConfig_from_settings env cls es tsc lcc kw = Inl TypeError"
    using 9 by (auto intro: BaseEmbeddingConfig_from_settings_embedding_error)
  have 12: "v \<noteq> PyNone \<and> py_int v = Inl e \<and> e \<noteq> ValueError \<longrightarrow>
      get_token_limit env m v = Inl e \<and>
      get_chunk_overlap env m v = Inl e \<and>
      get_embedding_output_dimensions env m v = Inl e"
    by (simp add: get_token_limit_other_error get_chunk_overlap_other_error
        get_embedding_output_dimensions_other_error)
  have 13: "py_int w = Inl ValueError \<longrightarrow>
      (\<exists>msg. get_token_limit env m w = Inl (ImproperlyConfigured msg)) \<and>
      (\<exists>msg. get_chunk_overlap env m w = Inl (ImproperlyConfigured msg)) \<and>
      (\<exists>msg. get_embedding_output_dimensions env m w = Inl (ImproperlyConfigured msg))"
    by (simp add: get_token_limit_ValueError get_chunk_overlap_ValueError
        get_embedding_output_dimensions_ValueError)
  show ?thesis
    by (intro conjI 1 2 3 4 5 6 7 8 9 10 11 12 13)
qed

theorem C10_only_ValueError_is_caught_witness:
  \<open>BaseConfig_from_settings example_env BaseConfig_init
     \<lparr>MODEL_ID = ''gpt-4'', TOKEN_LIMIT = Some (PyFloat (Finite (17 / 2))),
      CHUNK_OVERLAP_CHARACTERS = None\<rparr>
     example_splitter_class example_length_calculator_class []
   = Inr \<lparr>chunk_overlap_characters = 100, model_id = ''gpt-4'',
          text_splitter_class = example_splitter_class,
          text_splitter_length_calculator_class = example_length_calculator_class,
          token_limit = 8\<rparr> \<and>
   BaseConfig_from_settings example_env BaseConfig_init
     \<lparr>MODEL_ID = ''gpt-4'', TOKEN_LIMIT = Some (PyList [PyInt 8000]),
      CHUNK_OVERLAP_CHARACTERS = None\<rparr>
     example_splitter_class example_length_calculator_class []
   = Inl TypeError \<and>
   BaseEmbeddingConfig_from_settings example_env BaseEmbeddingConfig_init
     \<lparr>MODEL_ID = ''text-embed-1'', TOKEN_LIMIT = None, CHUNK_OVERLAP_CHARACTERS = None,
      EMBEDDING_OUTPUT_DIMENSIONS = Some (PyList [PyInt 1536])\<rparr>
     example_splitter_class example_length_calculator_class []
   = Inl TypeError \<and>
   py_int (PyFloat (Infinity True)) = Inl OverflowError \<and>
   get_token_limit example_env ''gpt-4'' (PyFloat (Infinity True)) = Inl OverflowError \<and>
   get_chunk_overlap example_env ''gpt-4'' (PyFloat (Infinity True)) = Inl OverflowError \<and>
   get_embedding_output_dimensions example_env ''gpt-4'' (PyFloat (Infinity True))
     = Inl OverflowError \<and>
   py_int (PyFloat NaN) = Inl ValueError \<and>
   get_token_limit example_env ''gpt-4'' (PyFloat NaN)
     = Inl (ImproperlyConfigured ''"TOKEN_LIMIT" is not an "int", it is a "<class 'float'>".'')\<close>
  using C10_only_ValueError_is_caught
      [of example_env "''gpt-4''" "17 / 2"
        "\<lparr>MODEL_ID = ''gpt-4'', TOKEN_LIMIT = Some (PyFloat (Finite (17 / 2))),
          CHUNK_OVERLAP_CHARACTERS = None\<rparr>"
        100 example_splitter_class example_length_calculator_class
        "[PyInt 8000]"
        "\<lparr>MODEL_ID = ''gpt-4'', TOKEN_LIMIT = Some (PyList [PyInt 8000]),
          CHUNK_OVERLAP_CHARACTERS = None\<rparr>"
        BaseConfig_init "[]"
        "\<lparr>MODEL_ID = ''text-embed-1'', TOKEN_LIMIT = None, CHUNK_OVERLAP_CHARACTERS = None,
          EMBEDDING_OUTPUT_DIMENSIONS = Some (PyList [PyInt 8000])\<rparr>"
        "PyFloat (Infinity True)" OverflowError "PyFloat NaN"]
    C10_only_ValueError_is_caught
      [of example_env "''gpt-4''" "17 / 2"
        "\<lparr>MODEL_ID = ''gpt-4'', TOKEN_LIMIT = Some (PyFloat (Finite (17 / 2))),
          CHUNK_OVERLAP_CHARACTERS = None\<rparr>"
        100 example_splitter_class example_length_calculator_class
        "[PyInt 1536]"
        "\<lparr>MODEL_ID = ''gpt-4'', TOKEN_LIMIT = Some (PyList [PyInt 1536]),
          CHUNK_OVERLAP_CHARACTERS = None\<rparr>"
        BaseEmbeddingConfig_init "[]"
        "\<lparr>MODEL_ID = ''text-embed-1'', TOKEN_LIMIT = None, CHUNK_OVERLAP_CHARACTERS = None,
          EMBEDDING_OUTPUT_DIMENSIONS = Some (PyList [PyInt 1536])\<rparr>"
        "PyFloat (Infinity True)" OverflowError "PyFloat NaN"]
  by (simp add: example_env_def get_chunk_overlap_default get_token_limit_ValueError
      py_type_repr_def)

end
